theory Spec2Isabelle
  imports Main "HOL-Library.Sublist"
begin

section \<open>Strings, bytes and paths\<close>

text \<open>
  A Python \<open>str\<close> is a sequence of Unicode code points, so it is a list of naturals; a
  \<open>bytes\<close> value is a list of 8-bit characters, which is what \<open>char list\<close> is.
  \<open>ustr\<close> writes an ASCII literal of the source as a \<open>str\<close>.
\<close>

type_synonym ustring = "nat list"
type_synonym bytes = "char list"

definition ustr :: "string \<Rightarrow> ustring" where
  "ustr s = map of_char s"

text \<open>\<open>x or y\<close> on strings that may be \<open>None\<close>: the empty string and \<open>None\<close> are falsy.\<close>

definition str_or :: "ustring option \<Rightarrow> ustring option \<Rightarrow> ustring option" where
  "str_or x y = (case x of None \<Rightarrow> y | Some s \<Rightarrow> if s = [] then y else Some s)"

section \<open>sanitize\_name\<close>

text \<open>
  The allow-list \<open>keep\<close> of \<open>sanitize_name\<close>, code point by code point as the literal
  stands in the source file (210 characters: the ASCII part, the extended alphabet as
  it is stored, and the digits once more).
\<close>

definition keep :: ustring where
  "keep = ustr ''-_.() abcdefghijklmnopqrstuvwxyzABCDEFGHIJKLMNOPQRSTUVWXYZ0123456789'' @
    [8211, 8734, 8211, 177, 8211, 8804, 8211, 8805, 8211, 165, 8211, 181, 8212, 235,
     8211, 8706, 8211, 8721, 8211, 8719, 8211, 960, 8211, 8747, 8211, 170, 8211, 186,
     8211, 937, 8211, 230, 8211, 248, 8212, 196, 8212, 197, 8212, 199, 8212, 201,
     8212, 209, 8212, 214, 8212, 220, 8212, 225, 8212, 224, 8212, 226, 8212, 228,
     8212, 227, 8212, 229, 8212, 231, 8212, 233, 8212, 232, 8211, 234, 8211, 235,
     8211, 237, 8211, 236, 8211, 238, 8211, 239, 8211, 197, 8211, 241, 8211, 243,
     8211, 242, 8211, 244, 8211, 246, 8211, 245, 8211, 250, 8211, 249, 8211, 251,
     8211, 252, 8211, 8224, 8211, 176, 8211, 162, 8211, 163, 8211, 167, 8211, 8226,
     8211, 182, 8211, 223, 8211, 174, 8211, 169, 8211, 8482, 8211, 180, 8211, 168,
     8211, 8800, 8211, 198, 8211, 216] @
    ustr ''0123456789''"

text \<open>
  \<open>"".join(c if c in keep else "_" for c in (name or "unnamed"))\<close>. The argument is a
  \<open>str\<close> or \<open>None\<close>; for a one-character string \<open>c\<close>, \<open>c in keep\<close> is membership.
\<close>

definition underscore :: nat where
  "underscore = of_char CHR ''_''"

definition sanitize_name :: "ustring option \<Rightarrow> ustring" where
  "sanitize_name name =
     map (\<lambda>c. if c \<in> set keep then c else underscore)
       (case str_or name (Some (ustr ''unnamed'')) of Some s \<Rightarrow> s | None \<Rightarrow> [])"

section \<open>check\_version\_compatibility\<close>

text \<open>
  In a \<open>str\<close> pattern \<open>\d\<close> matches every Unicode decimal digit, and \<open>int\<close> reads
  them all. The ASCII digits are fixed here; the digits beyond ASCII come from the
  interpreter's Unicode table, the parameter \<open>nd\<close> (code point to digit value).
\<close>

definition digit_value :: "(nat \<Rightarrow> nat option) \<Rightarrow> nat \<Rightarrow> nat option" where
  "digit_value nd c =
     (if 48 \<le> c \<and> c \<le> 57 then Some (c - 48) else if c < 128 then None else nd c)"

definition is_udigit :: "(nat \<Rightarrow> nat option) \<Rightarrow> nat \<Rightarrow> bool" where
  "is_udigit nd c = (digit_value nd c \<noteq> None)"

text \<open>
  \<open>int(s)\<close> for a string of decimal digits, as the groups of \<open>(\d+)\<close> are; \<open>None\<close> is
  its \<open>ValueError\<close>. The integer is unbounded, but the interpreter refuses to convert a
  string of more digits than \<open>sys.get_int_max_str_digits()\<close>, leading zeros counted: the
  parameter \<open>lim\<close>, which is 4300 unless set otherwise, and is 0 (no limit) or at least
  640.
\<close>

fun int_of_digits :: "(nat \<Rightarrow> nat option) \<Rightarrow> ustring \<Rightarrow> int \<Rightarrow> int option" where
  "int_of_digits nd [] acc = Some acc"
| "int_of_digits nd (c # cs) acc =
     (case digit_value nd c of
        None \<Rightarrow> None
      | Some d \<Rightarrow> int_of_digits nd cs (10 * acc + int d))"

definition over_limit :: "nat \<Rightarrow> ustring \<Rightarrow> bool" where
  "over_limit lim s = (lim \<noteq> 0 \<and> lim < length s)"

definition int_of_decimal :: "nat \<Rightarrow> (nat \<Rightarrow> nat option) \<Rightarrow> ustring \<Rightarrow> int option" where
  "int_of_decimal lim nd s =
     (if s = [] \<or> over_limit lim s then None else int_of_digits nd s 0)"

definition valid_limit :: "nat \<Rightarrow> bool" where
  "valid_limit lim = (lim = 0 \<or> 640 \<le> lim)"

text \<open>
  \<open>re.match(r'(\d+)\.(\d+)', version_str)\<close>: a match at the start only. A greedy \<open>\d+\<close>
  followed by a literal dot can only stop at the end of the run of digits, and the
  second \<open>\d+\<close> takes its whole run. The result is groups 1 and 2.
\<close>

definition match_major_minor ::
  "(nat \<Rightarrow> nat option) \<Rightarrow> ustring \<Rightarrow> (ustring \<times> ustring) option" where
  "match_major_minor nd s =
     (let g1 = takeWhile (is_udigit nd) s; r = dropWhile (is_udigit nd) s
      in if g1 = [] then None
         else (case r of
                 [] \<Rightarrow> None
               | c # r' \<Rightarrow>
                   if c \<noteq> 46 then None
                   else (let g2 = takeWhile (is_udigit nd) r'
                         in if g2 = [] then None else Some (g1, g2))))"

definition inconclusive :: "bool \<times> ustring" where
  "inconclusive = (True, ustr ''Version check inconclusive'')"

text \<open>
  The body of the \<open>try\<close>; the bare \<open>except: pass\<close> sends a failing \<open>int\<close> to the final
  \<open>return True, "Version check inconclusive"\<close>, as a failed match goes there. \<open>major\<close> is
  converted first.
\<close>

definition check_version_compatibility ::
  "nat \<Rightarrow> (nat \<Rightarrow> nat option) \<Rightarrow> ustring \<Rightarrow> bool \<times> ustring" where
  "check_version_compatibility lim nd version_str =
     (case match_major_minor nd version_str of
        None \<Rightarrow> inconclusive
      | Some (g1, g2) \<Rightarrow>
          (case int_of_decimal lim nd g1 of
             None \<Rightarrow> inconclusive
           | Some major \<Rightarrow>
               (case int_of_decimal lim nd g2 of
                  None \<Rightarrow> inconclusive
                | Some minor \<Rightarrow>
                    if major < 3 \<or> (major = 3 \<and> minor < 4)
                    then (False, ustr ''Unity version too old (< 3.4)'')
                    else if major > 2023
                    then (True, ustr ''Newer version - may have limited support'')
                    else (True, ustr ''Fully supported''))))"

text \<open>
  The leading \<open><major>.<minor>\<close> of a version string as numbers, when the string has
  one, however long its digits are: what the rules of the classifier are stated over.
\<close>

definition leading_major_minor ::
  "(nat \<Rightarrow> nat option) \<Rightarrow> ustring \<Rightarrow> (int \<times> int) option" where
  "leading_major_minor nd s =
     (case match_major_minor nd s of
        None \<Rightarrow> None
      | Some (g1, g2) \<Rightarrow>
          (case (int_of_decimal 0 nd g1, int_of_decimal 0 nd g2) of
             (Some major, Some minor) \<Rightarrow> Some (major, minor)
           | _ \<Rightarrow> None))"

text \<open>Whether the digits of major or of minor are more than \<open>int\<close> converts.\<close>

definition too_long :: "nat \<Rightarrow> (nat \<Rightarrow> nat option) \<Rightarrow> ustring \<Rightarrow> bool" where
  "too_long lim nd s =
     (case match_major_minor nd s of
        None \<Rightarrow> False
      | Some (g1, g2) \<Rightarrow> over_limit lim g1 \<or> over_limit lim g2)"

section \<open>The world outside the program\<close>

text \<open>
  An exception is a value; only its text is ever used (\<open>str(e)\<close>). The model covers the
  exceptions of class \<open>Exception\<close>, the ones every handler of the program catches;
  \<open>KeyboardInterrupt\<close> is re-raised by the batch loops and is not an \<open>Exception\<close>.
\<close>

datatype exc = Exception ustring

fun exc_text :: "exc \<Rightarrow> ustring" where
  "exc_text (Exception m) = m"

text \<open>
  A \<open>pathlib.Path\<close> is its list of components; \<open>p / name\<close> appends one component
  (every name the program appends is free of separators).
\<close>

type_synonym path = "ustring list"

definition path_name :: "path \<Rightarrow> ustring" where
  "path_name p = (if p = [] then [] else last p)"

text \<open>\<open>str.rfind\<close>: the index of the last occurrence.\<close>

fun rfind :: "'a \<Rightarrow> 'a list \<Rightarrow> nat option" where
  "rfind x [] = None"
| "rfind x (y # ys) =
     (case rfind x ys of
        Some i \<Rightarrow> Some (Suc i)
      | None \<Rightarrow> if x = y then Some 0 else None)"

text \<open>
  \<open>PurePath.suffix\<close> and \<open>PurePath.stem\<close> of pathlib: with \<open>i = name.rfind('.')\<close>, the
  suffix is \<open>name[i:]\<close> and the stem \<open>name[:i]\<close> when \<open>0 < i < len(name) - 1\<close>, and
  otherwise the suffix is empty and the stem is the name.
\<close>

definition suffix_of :: "ustring \<Rightarrow> ustring" where
  "suffix_of name =
     (case rfind 46 name of
        None \<Rightarrow> []
      | Some i \<Rightarrow> if 0 < i \<and> i + 1 < length name then drop i name else [])"

definition stem_of :: "ustring \<Rightarrow> ustring" where
  "stem_of name =
     (case rfind 46 name of
        None \<Rightarrow> name
      | Some i \<Rightarrow> if 0 < i \<and> i + 1 < length name then take i name else name)"

text \<open>
  What the parser library hands over. A value read with \<open>getattr\<close> is \<open>None\<close>, a \<open>str\<close>, a
  \<open>bytes\<close> or \<open>bytearray\<close>, or an object of another kind, one that a binary file does not
  accept (\<open>PyOther\<close>, with its truth value); an attribute that may be missing is an
  \<open>option\<close> around it.
\<close>

datatype pyval = PyNone | PyStr ustring | PyBytes bytes | PyOther bool

fun truthy :: "pyval \<Rightarrow> bool" where
  "truthy PyNone = False"
| "truthy (PyStr s) = (s \<noteq> [])"
| "truthy (PyBytes b) = (b \<noteq> [])"
| "truthy (PyOther t) = t"

definition py_or :: "pyval \<Rightarrow> pyval \<Rightarrow> pyval" where
  "py_or x y = (if truthy x then x else y)"

definition getattr :: "'a option \<Rightarrow> 'a \<Rightarrow> 'a" where
  "getattr a d = (case a of None \<Rightarrow> d | Some v \<Rightarrow> v)"

text \<open>
  An image is what \<open>image.save(path)\<close> would encode (or the error of encoding it); a type
  tree is what \<open>json.dump\<close> would write (or its error). Both objects are truthy.
\<close>

datatype image = Image "exc + bytes"
datatype tree = Tree "exc + ustring"

record decoded =
  name_attr :: "ustring option option"
  m_Name :: "ustring option option"
  image :: "exc + image option"
  samples :: "exc + (ustring \<times> bytes) list"
  export :: "exc + ustring"
  m_Script :: "pyval option"
  script :: "pyval option"
  text_attr :: "pyval option"
  m_FontData :: "pyval option"
  read_typetree :: "exc + tree option"

text \<open>
  \<open>name_attr\<close> and \<open>text_attr\<close> are the attributes \<open>name\<close> and \<open>text\<close>. \<open>image\<close> is
  \<open>Inr None\<close> when the attribute is missing or falsy; \<open>samples\<close> is the dictionary in its
  order, empty when the attribute is missing or falsy; \<open>read_typetree\<close> is \<open>Inr None\<close> for
  a falsy tree. \<open>tname\<close> is \<open>getattr(obj.type, "name", str(obj.type))\<close>, a class name.
\<close>

record obj =
  tname :: string
  path_id :: int
  read :: "exc + decoded"

record env =
  env_version :: "exc + ustring option"
  objects :: "exc + obj list"

record dir_entry =
  entry_path :: path
  is_file :: bool

text \<open>
  The environment of a run: what \<open>UnityPy.load\<close> returns for a path, the bytes of a file,
  what \<open>rglob("*")\<close> and \<open>iterdir()\<close> yield before they raise (if they do), which
  \<open>mkdir\<close> and \<open>open\<close> for writing the system refuses, \<open>str(v)\<close> of a value that is not a
  \<open>str\<close>, the lower-casing of the character at an index of a string when that
  character is not ASCII, the name of the type of a value of another kind, and the
  \<open>UnicodeEncodeError\<close> of a string that does not encode.
\<close>

record world =
  load :: "path \<Rightarrow> exc + env"
  file_bytes :: "path \<Rightarrow> exc + bytes"
  rglob :: "path \<Rightarrow> dir_entry list \<times> exc option"
  iterdir :: "path \<Rightarrow> dir_entry list \<times> exc option"
  mkdir_error :: "path \<Rightarrow> exc option"
  open_error :: "path \<Rightarrow> exc option"
  str_of :: "pyval \<Rightarrow> ustring"
  lower_tab :: "ustring \<Rightarrow> nat \<Rightarrow> ustring"
  other_type_name :: "pyval \<Rightarrow> ustring"
  encode_error :: "ustring \<Rightarrow> exc"

section \<open>detect\_unity\_version\<close>

definition is_digit :: "char \<Rightarrow> bool" where
  "is_digit c = (c \<in> set ''0123456789'')"

definition is_lower_alnum :: "char \<Rightarrow> bool" where
  "is_lower_alnum c = (c \<in> set ''abcdefghijklmnopqrstuvwxyz0123456789'')"

text \<open>
  \<open>\d+\.\d+\<close> at the start of \<open>s\<close>: the matched text and the rest. In a \<open>bytes\<close>
  pattern \<open>\d\<close> is \<open>[0-9]\<close>. The first \<open>\d+\<close> must stop where its run of digits stops,
  since a dot has to follow; the last one takes its whole run, being greedy.
\<close>

definition match_dotted2 :: "bytes \<Rightarrow> (bytes \<times> bytes) option" where
  "match_dotted2 s =
     (let d1 = takeWhile is_digit s; r1 = dropWhile is_digit s
      in if d1 = [] then None
         else (case r1 of
                 [] \<Rightarrow> None
               | c # r \<Rightarrow>
                   if c \<noteq> CHR ''.'' then None
                   else (let d2 = takeWhile is_digit r
                         in if d2 = [] then None
                            else Some (d1 @ ''.'' @ d2, dropWhile is_digit r))))"

text \<open>\<open>\d+\.\d+\.\d+\<close> at the start of \<open>s\<close>.\<close>

definition match_dotted3 :: "bytes \<Rightarrow> (bytes \<times> bytes) option" where
  "match_dotted3 s =
     (case match_dotted2 s of
        None \<Rightarrow> None
      | Some (m, r) \<Rightarrow>
          (case r of
             [] \<Rightarrow> None
           | c # r' \<Rightarrow>
               if c \<noteq> CHR ''.'' then None
               else (let d3 = takeWhile is_digit r'
                     in if d3 = [] then None
                        else Some (m @ ''.'' @ d3, dropWhile is_digit r'))))"

text \<open>
  The three patterns, each as the match at the start of \<open>s\<close>, giving group 1:
  \<open>rb'(\d+\.\d+\.\d+[a-z0-9]*)'\<close>, \<open>rb'Unity (\d+\.\d+\.\d+)'\<close> and
  \<open>rb'UnityFS.*?(\d+\.\d+)'\<close>. The lazy \<open>.*?\<close> tries the group at once and, when that
  fails, skips one byte that is not a newline and tries again.
\<close>

definition pat_bare :: "bytes \<Rightarrow> bytes option" where
  "pat_bare s =
     (case match_dotted3 s of
        None \<Rightarrow> None
      | Some (m, r) \<Rightarrow> Some (m @ takeWhile is_lower_alnum r))"

definition pat_unity :: "bytes \<Rightarrow> bytes option" where
  "pat_unity s =
     (if prefix ''Unity '' s then map_option fst (match_dotted3 (drop 6 s)) else None)"

fun lazy_dotted2 :: "bytes \<Rightarrow> bytes option" where
  "lazy_dotted2 [] = None"
| "lazy_dotted2 (c # cs) =
     (case match_dotted2 (c # cs) of
        Some (m, r) \<Rightarrow> Some m
      | None \<Rightarrow> if c = CHR 0x0A then None else lazy_dotted2 cs)"

definition pat_unityfs :: "bytes \<Rightarrow> bytes option" where
  "pat_unityfs s = (if prefix ''UnityFS'' s then lazy_dotted2 (drop 7 s) else None)"

text \<open>\<open>re.search\<close>: the match at the leftmost position that has one.\<close>

fun re_search :: "(bytes \<Rightarrow> bytes option) \<Rightarrow> bytes \<Rightarrow> bytes option" where
  "re_search p [] = p []"
| "re_search p (c # cs) =
     (case p (c # cs) of Some g \<Rightarrow> Some g | None \<Rightarrow> re_search p cs)"

text \<open>The list \<open>version_patterns\<close>, in the order of the source.\<close>

definition version_patterns :: "(bytes \<Rightarrow> bytes option) list" where
  "version_patterns = [pat_bare, pat_unity, pat_unityfs]"

text \<open>The \<open>for pattern in ...\<close> loop with its \<open>break\<close>: group 1 of the first pattern found.\<close>

fun first_match :: "(bytes \<Rightarrow> bytes option) list \<Rightarrow> bytes \<Rightarrow> bytes option" where
  "first_match [] header = None"
| "first_match (p # ps) header =
     (case re_search p header of
        Some g \<Rightarrow> Some g
      | None \<Rightarrow> first_match ps header)"

text \<open>
  \<open>.decode('utf-8', errors='ignore')\<close> of a group: the groups hold digits, dots and
  lower-case letters only, and an ASCII byte decodes to its own code point.
\<close>

definition decode :: "bytes \<Rightarrow> ustring" where
  "decode b = map of_char b"

record version_info =
  version :: ustring
  detected_from :: "ustring option"
  compatible :: bool
  warning :: "ustring option"

definition unknown_version :: version_info where
  "unknown_version =
     \<lparr>version = ustr ''Unknown'', detected_from = None, compatible = True, warning = None\<rparr>"

text \<open>
  The body of the \<open>try\<close>: the exception it raised, if any, and \<open>version_info\<close> as it
  stands then.
\<close>

definition detect_body :: "world \<Rightarrow> path \<Rightarrow> version_info \<Rightarrow> exc option \<times> version_info" where
  "detect_body w p vi =
     (case load w p of
        Inl e \<Rightarrow> (Some e, vi)
      | Inr en \<Rightarrow>
          (case env_version en of
             Inl e \<Rightarrow> (Some e, vi)
           | Inr (Some v) \<Rightarrow>
               (None, vi\<lparr>version := v, detected_from := Some (path_name p)\<rparr>)
           | Inr None \<Rightarrow>
               (case file_bytes w p of
                  Inl e \<Rightarrow> (Some e, vi)
                | Inr content \<Rightarrow>
                    (let header = take 1024 content
                     in case first_match version_patterns header of
                          Some g \<Rightarrow>
                            (None, vi\<lparr>version := decode g,
                                      detected_from := Some (path_name p)\<rparr>)
                        | None \<Rightarrow> (None, vi)))))"

text \<open>The result and, when the handler ran, the exception of its warning in the log.\<close>

definition detect_unity_version :: "world \<Rightarrow> path \<Rightarrow> version_info \<times> exc option" where
  "detect_unity_version w p =
     (case detect_body w p unknown_version of
        (Some e, vi) \<Rightarrow> (vi\<lparr>warning := Some (exc_text e)\<rparr>, Some e)
      | (None, vi) \<Rightarrow> (vi, None))"

text \<open>
  The priority list as the specification words it: \<open>Unity <major>.<minor>.<patch>\<close>
  first, the bare version second, \<open>UnityFS\<close> third.
\<close>

definition spec_priority :: "(bytes \<Rightarrow> bytes option) list" where
  "spec_priority = [pat_unity, pat_bare, pat_unityfs]"

section \<open>find\_input\_files\<close>

definition ascii_lower :: "nat \<Rightarrow> nat" where
  "ascii_lower c = (if 65 \<le> c \<and> c \<le> 90 then c + 32 else c)"

text \<open>
  \<open>str.lower()\<close>: an ASCII character maps to its lower case; what becomes of any other
  character, which may depend on its place in the string, is the table's.
\<close>

fun lower_from :: "(ustring \<Rightarrow> nat \<Rightarrow> ustring) \<Rightarrow> ustring \<Rightarrow> nat \<Rightarrow> ustring \<Rightarrow> ustring" where
  "lower_from tab s i [] = []"
| "lower_from tab s i (c # cs) =
     (if c < 128 then [ascii_lower c] else tab s i) @ lower_from tab s (Suc i) cs"

definition lower :: "(ustring \<Rightarrow> nat \<Rightarrow> ustring) \<Rightarrow> ustring \<Rightarrow> ustring" where
  "lower tab s = lower_from tab s 0 s"

text \<open>\<open>k in s\<close> on strings: \<open>k\<close> occurs in \<open>s\<close> as a substring.\<close>

fun contains :: "ustring \<Rightarrow> ustring \<Rightarrow> bool" where
  "contains k [] = (k = [])"
| "contains k (c # cs) = (prefix k (c # cs) \<or> contains k cs)"

definition default_exts :: "ustring set" where
  "default_exts = set (map ustr
     [''.assets'', ''.unity3d'', ''.assetbundle'', ''.bundle'', ''.resS'', ''.sharedassets'',
      ''.resources'', ''.resource'', ''.dat'', ''.ress''])"

definition name_keys :: "ustring list" where
  "name_keys = map ustr
     [''sharedassets'', ''resources'', ''.unity3d'', ''assetbundle'', ''globalgamemanagers'',
      ''level'']"

text \<open>The test of the inner \<open>if\<close>, on a path that is a file.\<close>

definition is_candidate :: "world \<Rightarrow> ustring set \<Rightarrow> path \<Rightarrow> bool" where
  "is_candidate w exts p =
     (lower (lower_tab w) (suffix_of (path_name p)) \<in> exts \<or>
      list_ex (\<lambda>k. contains k (lower (lower_tab w) (path_name p))) name_keys)"

datatype log_entry =
    Scanning path | ScanError path exc | NoCandidates | FallbackError exc
  | FoundCandidates nat
  | Processing path | LoadFailed path exc
  | TextureSaved path | SpriteSaved path | SpriteNoImage ustring | SpriteError exc
  | AudioSaved path | MeshSaved path | MeshExportFailed exc | TextAssetSaved path
  | FontSaved path | ScriptJsonSaved path | ScriptSaved path | ScriptError exc
  | MaterialSaved path | MaterialExportFailed exc | ObjectError exc
  | StatsLine "(ustring \<times> nat) list"
  | Traceback exc

text \<open>The files found and the lines logged on the way.\<close>

definition find_input_files ::
  "world \<Rightarrow> path \<Rightarrow> ustring set option \<Rightarrow> path list \<times> log_entry list" where
  "find_input_files w root exts_arg =
     (let exts = (case exts_arg of None \<Rightarrow> default_exts | Some x \<Rightarrow> x);
          (entries, err) = rglob w root;
          files = map entry_path
                    (filter (\<lambda>e. is_file e \<and> is_candidate w exts (entry_path e)) entries);
          log1 = [Scanning root] @
                 (case err of None \<Rightarrow> [] | Some e \<Rightarrow> [ScanError root e])
      in if files = []
         then (let (entries2, err2) = iterdir w root;
                   files2 = map entry_path (filter is_file entries2);
                   log2 = [NoCandidates] @
                          (case err2 of None \<Rightarrow> [] | Some e \<Rightarrow> [FallbackError e])
               in (files2, log1 @ log2 @ [FoundCandidates (length files2)]))
         else (files, log1 @ [FoundCandidates (length files)]))"

text \<open>
  The rule of the specification for keeping a file: its extension equals, up to case, one
  of the listed extensions, or its name contains, up to case, one of the listed words.
\<close>

definition spec_exts :: "ustring list" where
  "spec_exts = map ustr
     [''.assets'', ''.unity3d'', ''.assetbundle'', ''.bundle'', ''.resS'', ''.sharedassets'',
      ''.resources'', ''.resource'', ''.dat'', ''.ress'']"

definition spec_keeps :: "world \<Rightarrow> path \<Rightarrow> bool" where
  "spec_keeps w p =
     (list_ex (\<lambda>x. lower (lower_tab w) (suffix_of (path_name p)) = lower (lower_tab w) x)
        spec_exts \<or>
      list_ex (\<lambda>k. contains (lower (lower_tab w) k) (lower (lower_tab w) (path_name p)))
        name_keys)"

section \<open>State, exceptions and the file system\<close>

datatype kind =
  Textures | Sprites | Audio | Meshes | Texts | Fonts | Scripts | Materials | Other

text \<open>The key of a kind in the dictionaries, which is also the name of its directory.\<close>

fun kind_key :: "kind \<Rightarrow> ustring" where
  "kind_key Textures = ustr ''textures''"
| "kind_key Sprites = ustr ''sprites''"
| "kind_key Audio = ustr ''audio''"
| "kind_key Meshes = ustr ''meshes''"
| "kind_key Texts = ustr ''texts''"
| "kind_key Fonts = ustr ''fonts''"
| "kind_key Scripts = ustr ''scripts''"
| "kind_key Materials = ustr ''materials''"
| "kind_key Other = ustr ''other''"

definition all_kinds :: "kind list" where
  "all_kinds = [Textures, Sprites, Audio, Meshes, Texts, Fonts, Scripts, Materials, Other]"

type_synonym kind_stats = "kind \<Rightarrow> nat"

definition zero_stats :: kind_stats where
  "zero_stats = (\<lambda>k. 0)"

definition stats_items :: "kind_stats \<Rightarrow> (ustring \<times> nat) list" where
  "stats_items st = map (\<lambda>k. (kind_key k, st k)) all_kinds"

datatype content = Text ustring | Bin bytes | Partial

datatype gui_entry =
    GuiProcessing nat nat ustring | GuiExtracted nat | GuiError ustring exc

text \<open>
  The state the program works on: the directories that exist because it made them, the
  files it has written (each write with its content, in order; a later write to a path
  replaces the file), the log, the log pane of the window, and the two dictionaries of
  counts: \<open>stats\<close> of the file at hand and \<open>total_stats\<close> of the batch.
\<close>

record state =
  dirs :: "path set"
  writes :: "(path \<times> content) list"
  log :: "log_entry list"
  gui_log :: "gui_entry list"
  stats :: kind_stats
  total_stats :: kind_stats

text \<open>
  A piece of program: from a state to the value it returns or the exception it raises,
  and the state it leaves.
\<close>

type_synonym 'a action = "state \<Rightarrow> (exc + 'a) \<times> state"

definition ret :: "'a \<Rightarrow> 'a action" where
  "ret x = (\<lambda>s. (Inr x, s))"

definition raise :: "exc \<Rightarrow> 'a action" where
  "raise e = (\<lambda>s. (Inl e, s))"

definition and_then :: "'a action \<Rightarrow> ('a \<Rightarrow> 'b action) \<Rightarrow> 'b action" where
  "and_then m f = (\<lambda>s. case m s of (Inl e, s') \<Rightarrow> (Inl e, s') | (Inr x, s') \<Rightarrow> f x s')"

definition try_except :: "'a action \<Rightarrow> (exc \<Rightarrow> 'a action) \<Rightarrow> 'a action" where
  "try_except m h = (\<lambda>s. case m s of (Inl e, s') \<Rightarrow> h e s' | (Inr x, s') \<Rightarrow> (Inr x, s'))"

text \<open>A call into the parser library: it returns or raises, and leaves the state alone.\<close>

definition call :: "exc + 'a \<Rightarrow> 'a action" where
  "call r = (\<lambda>s. (r, s))"

definition logging :: "log_entry \<Rightarrow> unit action" where
  "logging l = (\<lambda>s. (Inr (), s\<lparr>log := log s @ [l]\<rparr>))"

definition gui :: "gui_entry \<Rightarrow> unit action" where
  "gui l = (\<lambda>s. (Inr (), s\<lparr>gui_log := gui_log s @ [l]\<rparr>))"

text \<open>\<open>stats[k] += 1\<close>\<close>

definition incr :: "kind \<Rightarrow> unit action" where
  "incr k = (\<lambda>s. (Inr (), s\<lparr>stats := (stats s)(k := stats s k + 1)\<rparr>))"

text \<open>
  \<open>p.mkdir(parents=True, exist_ok=True); return p\<close>: the path and every parent exist
  afterwards, and a directory that exists already is no error.
\<close>

definition ensure_dir :: "world \<Rightarrow> path \<Rightarrow> path action" where
  "ensure_dir w p =
     (\<lambda>s. case mkdir_error w p of
             Some e \<Rightarrow> (Inl e, s)
           | None \<Rightarrow> (Inr p, s\<lparr>dirs := dirs s \<union> set (tl (prefixes p))\<rparr>))"

text \<open>\<open>with open(p, mode) as f: f.write(c)\<close>\<close>

definition write_file :: "world \<Rightarrow> path \<Rightarrow> content \<Rightarrow> unit action" where
  "write_file w p c =
     (\<lambda>s. case open_error w p of
             Some e \<Rightarrow> (Inl e, s)
           | None \<Rightarrow> (Inr (), s\<lparr>writes := writes s @ [(p, c)]\<rparr>))"

text \<open>\<open>image.save(p)\<close>: an image that does not encode leaves no file.\<close>

fun save_image :: "world \<Rightarrow> image \<Rightarrow> path \<Rightarrow> unit action" where
  "save_image w (Image (Inl e)) p = raise e"
| "save_image w (Image (Inr b)) p = write_file w p (Bin b)"

text \<open>
  \<open>with open(p, "w", encoding="utf-8") as f: json.dump(tree, f, ...)\<close>: the file is
  opened first, so a tree that does not serialise leaves a file begun.
\<close>

fun dump_json :: "world \<Rightarrow> tree \<Rightarrow> path \<Rightarrow> unit action" where
  "dump_json w (Tree (Inl e)) p = and_then (write_file w p Partial) (\<lambda>_. raise e)"
| "dump_json w (Tree (Inr t)) p = write_file w p (Text t)"

text \<open>
  \<open>with open(p, "wb") as f: f.write(v)\<close> for a truthy value: bytes are written, and
  anything else is a \<open>TypeError\<close> of \<open>write\<close>, after the file was opened. Its text is
  \<open>a bytes-like object is required, not '<type>'\<close>.
\<close>

definition type_name :: "world \<Rightarrow> pyval \<Rightarrow> ustring" where
  "type_name w v =
     (case v of
        PyNone \<Rightarrow> ustr ''NoneType''
      | PyStr t \<Rightarrow> ustr ''str''
      | PyBytes b \<Rightarrow> ustr ''bytes''
      | PyOther t \<Rightarrow> other_type_name w v)"

definition type_error :: "world \<Rightarrow> pyval \<Rightarrow> exc" where
  "type_error w v =
     Exception (ustr ''a bytes-like object is required, not '' @ [39] @ type_name w v @ [39])"

fun write_binary :: "world \<Rightarrow> path \<Rightarrow> pyval \<Rightarrow> unit action" where
  "write_binary w p (PyBytes b) = write_file w p (Bin b)"
| "write_binary w p v = and_then (write_file w p (Bin [])) (\<lambda>_. raise (type_error w v))"

text \<open>
  \<open>with open(p, "w", encoding="utf-8", errors="surrogateescape") as f: f.write(t)\<close>: a
  surrogate from U+DC80 to U+DCFF is written as the byte it stands for, and any other
  surrogate is a \<open>UnicodeEncodeError\<close> of \<open>write\<close>, which leaves the opened file empty.
\<close>

definition escapable :: "ustring \<Rightarrow> bool" where
  "escapable t =
     list_all (\<lambda>c. c < 55296 \<or> 57343 < c \<or> (56448 \<le> c \<and> c \<le> 56575)) t"

definition write_text_escaped :: "world \<Rightarrow> path \<Rightarrow> ustring \<Rightarrow> unit action" where
  "write_text_escaped w p t =
     (if escapable t then write_file w p (Text t)
      else and_then (write_file w p (Text [])) (\<lambda>_. raise (encode_error w t)))"

text \<open>
  The branch on the type of the data that the text and script writers share: a \<open>str\<close>
  is written as text, \<open>bytes\<close> as bytes, and nothing is written for anything else.
\<close>

fun write_str_or_bytes :: "world \<Rightarrow> path \<Rightarrow> pyval \<Rightarrow> unit action" where
  "write_str_or_bytes w p (PyStr t) = write_text_escaped w p t"
| "write_str_or_bytes w p (PyBytes b) = write_file w p (Bin b)"
| "write_str_or_bytes w p v = ret ()"

section \<open>Numbers in file names\<close>

text \<open>\<open>str(n)\<close> of an integer, as an f-string formats \<open>obj.path_id\<close>.\<close>

fun str_nat :: "nat \<Rightarrow> ustring" where
  "str_nat n = (if n < 10 then [48 + n] else str_nat (n div 10) @ [48 + n mod 10])"

declare str_nat.simps [simp del]

definition str_int :: "int \<Rightarrow> ustring" where
  "str_int i = (if i < 0 then 45 # str_nat (nat (- i)) else str_nat (nat i))"

section \<open>extract\_sprite and extract\_mono\_script\<close>

definition extract_sprite :: "world \<Rightarrow> obj \<Rightarrow> path \<Rightarrow> int \<Rightarrow> bool action" where
  "extract_sprite w sprite_obj out_dir pid =
     try_except
       (and_then (call (read sprite_obj)) (\<lambda>sprite.
          let name = sanitize_name
                       (getattr (m_Name sprite) (Some (ustr ''sprite_'' @ str_int pid)))
          in and_then (call (image sprite)) (\<lambda>img.
               case img of
                 Some im \<Rightarrow>
                   (let out_path = out_dir @ [name @ ustr ''_'' @ str_int pid @ ustr ''.png'']
                    in and_then (save_image w im out_path) (\<lambda>_.
                       and_then (logging (SpriteSaved out_path)) (\<lambda>_. ret True)))
               | None \<Rightarrow> and_then (logging (SpriteNoImage name)) (\<lambda>_. ret False))))
       (\<lambda>e. and_then (logging (SpriteError e)) (\<lambda>_. ret False))"

text \<open>\<open>str(script_data)\<close>: a \<open>str\<close> is itself.\<close>

definition py_str :: "world \<Rightarrow> pyval \<Rightarrow> ustring" where
  "py_str w v = (case v of PyStr t \<Rightarrow> t | _ \<Rightarrow> str_of w v)"

definition source_ext :: "world \<Rightarrow> pyval \<Rightarrow> ustring" where
  "source_ext w script_data =
     (if list_ex (\<lambda>x. contains x (take 100 (py_str w script_data)))
           [ustr ''using '', ustr ''namespace '', ustr ''class '']
      then ustr ''.cs'' else ustr ''.txt'')"

text \<open>
  The inner \<open>try\<close> of \<open>extract_mono_script\<close>, entered when there is no script data:
  \<open>True\<close> when it returned \<open>True\<close>, \<open>False\<close> when control goes on below it.
\<close>

definition script_typetree :: "world \<Rightarrow> decoded \<Rightarrow> path \<Rightarrow> bool action" where
  "script_typetree w scr out_path =
     try_except
       (and_then (call (read_typetree scr)) (\<lambda>tr.
          case tr of
            Some t \<Rightarrow>
              and_then (dump_json w t out_path) (\<lambda>_.
              and_then (logging (ScriptJsonSaved out_path)) (\<lambda>_. ret True))
          | None \<Rightarrow> ret False))
       (\<lambda>e. ret False)"

definition extract_mono_script :: "world \<Rightarrow> obj \<Rightarrow> path \<Rightarrow> int \<Rightarrow> bool action" where
  "extract_mono_script w script_obj out_dir pid =
     try_except
       (and_then (call (read script_obj)) (\<lambda>scr.
          let name = sanitize_name
                       (getattr (m_Name scr) (Some (ustr ''script_'' @ str_int pid)));
              script_data =
                (case m_Script scr of
                   Some v \<Rightarrow> v
                 | None \<Rightarrow> (case script scr of Some v \<Rightarrow> v | None \<Rightarrow> PyNone))
          in if \<not> truthy script_data
             then script_typetree w scr
                    (out_dir @ [name @ ustr ''_'' @ str_int pid @ ustr ''.json''])
             else (let ext = source_ext w script_data;
                       out_path = out_dir @ [name @ ustr ''_'' @ str_int pid @ ext]
                   in and_then (write_str_or_bytes w out_path script_data) (\<lambda>_.
                      and_then (logging (ScriptSaved out_path)) (\<lambda>_. ret True)))))
       (\<lambda>e. and_then (logging (ScriptError e)) (\<lambda>_. ret False))"

section \<open>extract\_from\_file\<close>

text \<open>The branches of the loop body, one per kind, each for an object that reached it.\<close>

definition texture_branch :: "world \<Rightarrow> path \<Rightarrow> obj \<Rightarrow> unit action" where
  "texture_branch w out_root ob =
     and_then (call (read ob)) (\<lambda>data.
     and_then (call (image data)) (\<lambda>img.
       case img of
         None \<Rightarrow> ret ()
       | Some im \<Rightarrow>
           (let tex_name =
                  sanitize_name
                    (str_or (str_or (getattr (name_attr data) None) (getattr (m_Name data) None))
                       (Some (ustr ''texture_'' @ str_int (path_id ob))))
            in and_then (ensure_dir w (out_root @ [ustr ''textures''])) (\<lambda>out_dir.
               let out_path =
                     out_dir @ [tex_name @ ustr ''_'' @ str_int (path_id ob) @ ustr ''.png'']
               in and_then (save_image w im out_path) (\<lambda>_.
                  and_then (logging (TextureSaved out_path)) (\<lambda>_.
                  incr Textures))))))"

definition sprite_branch :: "world \<Rightarrow> path \<Rightarrow> obj \<Rightarrow> unit action" where
  "sprite_branch w out_root ob =
     and_then (ensure_dir w (out_root @ [ustr ''sprites''])) (\<lambda>out_dir.
     and_then (extract_sprite w ob out_dir (path_id ob)) (\<lambda>ok.
       if ok then incr Sprites else ret ()))"

text \<open>The loop over \<open>samples.items()\<close>.\<close>

fun write_samples :: "world \<Rightarrow> path \<Rightarrow> int \<Rightarrow> (ustring \<times> bytes) list \<Rightarrow> unit action" where
  "write_samples w out_dir pid [] = ret ()"
| "write_samples w out_dir pid ((name, b) # rest) =
     (let fname = sanitize_name (str_or (Some name) (Some (ustr ''audio_'' @ str_int pid)));
          out_path = out_dir @ [fname @ ustr ''.wav'']
      in and_then (write_file w out_path (Bin b)) (\<lambda>_.
         and_then (logging (AudioSaved out_path)) (\<lambda>_.
         and_then (incr Audio) (\<lambda>_.
         write_samples w out_dir pid rest))))"

definition audio_branch :: "world \<Rightarrow> path \<Rightarrow> obj \<Rightarrow> unit action" where
  "audio_branch w out_root ob =
     and_then (call (read ob)) (\<lambda>clip.
     and_then (call (samples clip)) (\<lambda>smp.
     and_then (ensure_dir w (out_root @ [ustr ''audio''])) (\<lambda>out_dir.
       write_samples w out_dir (path_id ob) smp)))"

definition mesh_branch :: "world \<Rightarrow> path \<Rightarrow> obj \<Rightarrow> unit action" where
  "mesh_branch w out_root ob =
     and_then (call (read ob)) (\<lambda>mesh.
       try_except
         (and_then (call (export mesh)) (\<lambda>mesh_text.
          and_then (ensure_dir w (out_root @ [ustr ''meshes''])) (\<lambda>out_dir.
            let name = sanitize_name
                         (getattr (m_Name mesh) (Some (ustr ''mesh_'' @ str_int (path_id ob))));
                out_path = out_dir @ [name @ ustr ''.obj'']
            in and_then (write_file w out_path (Text mesh_text)) (\<lambda>_.
               and_then (logging (MeshSaved out_path)) (\<lambda>_.
               incr Meshes)))))
         (\<lambda>e. logging (MeshExportFailed e)))"

text \<open>
  \<open>getattr(ta, "m_Script", None) or getattr(ta, "script", None) or getattr(ta, "text", None)\<close>
\<close>

definition text_data :: "decoded \<Rightarrow> pyval" where
  "text_data ta =
     py_or (py_or (getattr (m_Script ta) PyNone) (getattr (script ta) PyNone))
       (getattr (text_attr ta) PyNone)"

definition text_branch :: "world \<Rightarrow> path \<Rightarrow> obj \<Rightarrow> unit action" where
  "text_branch w out_root ob =
     and_then (call (read ob)) (\<lambda>ta.
     and_then (ensure_dir w (out_root @ [ustr ''texts''])) (\<lambda>out_dir.
       let name = sanitize_name
                    (getattr (m_Name ta) (Some (ustr ''text_'' @ str_int (path_id ob))));
           out_path = out_dir @ [name @ ustr ''.txt''];
           data = text_data ta
       in and_then (write_str_or_bytes w out_path data) (\<lambda>_.
          and_then (logging (TextAssetSaved out_path)) (\<lambda>_.
          incr Texts))))"

definition font_ext :: "pyval \<Rightarrow> ustring" where
  "font_ext font_data =
     (case font_data of
        PyBytes b \<Rightarrow> if take 4 b = ''OTTO'' then ustr ''.otf'' else ustr ''.ttf''
      | _ \<Rightarrow> ustr ''.ttf'')"

definition font_branch :: "world \<Rightarrow> path \<Rightarrow> obj \<Rightarrow> unit action" where
  "font_branch w out_root ob =
     and_then (call (read ob)) (\<lambda>font.
     and_then (ensure_dir w (out_root @ [ustr ''fonts''])) (\<lambda>out_dir.
       let name = sanitize_name
                    (getattr (m_Name font) (Some (ustr ''font_'' @ str_int (path_id ob))));
           font_data = getattr (m_FontData font) PyNone
       in if truthy font_data
          then (let out_path = out_dir @ [name @ font_ext font_data]
                in and_then (write_binary w out_path font_data) (\<lambda>_.
                   and_then (logging (FontSaved out_path)) (\<lambda>_.
                   incr Fonts)))
          else ret ()))"

definition script_branch :: "world \<Rightarrow> path \<Rightarrow> obj \<Rightarrow> unit action" where
  "script_branch w out_root ob =
     and_then (ensure_dir w (out_root @ [ustr ''scripts''])) (\<lambda>out_dir.
     and_then (extract_mono_script w ob out_dir (path_id ob)) (\<lambda>ok.
       if ok then incr Scripts else ret ()))"

definition material_branch :: "world \<Rightarrow> path \<Rightarrow> obj \<Rightarrow> unit action" where
  "material_branch w out_root ob =
     and_then (call (read ob)) (\<lambda>mat.
       try_except
         (and_then (call (read_typetree mat)) (\<lambda>tr.
            case tr of
              None \<Rightarrow> ret ()
            | Some t \<Rightarrow>
                and_then (ensure_dir w (out_root @ [ustr ''materials''])) (\<lambda>out_dir.
                  let name = sanitize_name
                               (getattr (m_Name mat)
                                  (Some (ustr ''material_'' @ str_int (path_id ob))));
                      out_path =
                        out_dir @ [name @ ustr ''_'' @ str_int (path_id ob) @ ustr ''.json'']
                  in and_then (dump_json w t out_path) (\<lambda>_.
                     and_then (logging (MaterialSaved out_path)) (\<lambda>_.
                     incr Materials)))))
         (\<lambda>e. logging (MaterialExportFailed e)))"

text \<open>
  The \<open>if\<close>/\<open>elif\<close> chain on the type name and the option of the kind; \<open>options\<close> has
  the eight flags.
\<close>

definition dispatch :: "(kind \<Rightarrow> bool) \<Rightarrow> world \<Rightarrow> path \<Rightarrow> obj \<Rightarrow> unit action" where
  "dispatch options w out_root ob =
     (if tname ob = ''Texture2D'' \<and> options Textures then texture_branch w out_root ob
      else if tname ob = ''Sprite'' \<and> options Sprites then sprite_branch w out_root ob
      else if tname ob = ''AudioClip'' \<and> options Audio then audio_branch w out_root ob
      else if tname ob = ''Mesh'' \<and> options Meshes then mesh_branch w out_root ob
      else if tname ob = ''TextAsset'' \<and> options Texts then text_branch w out_root ob
      else if tname ob = ''Font'' \<and> options Fonts then font_branch w out_root ob
      else if tname ob \<in> set [''MonoBehaviour'', ''MonoScript''] \<and> options Scripts
        then script_branch w out_root ob
      else if tname ob = ''Material'' \<and> options Materials then material_branch w out_root ob
      else incr Other)"

text \<open>The body of the loop: the \<open>try\<close> and its \<open>except Exception\<close>.\<close>

definition handle_object :: "(kind \<Rightarrow> bool) \<Rightarrow> world \<Rightarrow> path \<Rightarrow> obj \<Rightarrow> unit action" where
  "handle_object options w out_root ob =
     try_except (dispatch options w out_root ob) (\<lambda>e. logging (ObjectError e))"

fun for_objects :: "(kind \<Rightarrow> bool) \<Rightarrow> world \<Rightarrow> path \<Rightarrow> obj list \<Rightarrow> unit action" where
  "for_objects options w out_root [] = ret ()"
| "for_objects options w out_root (ob # obs) =
     and_then (handle_object options w out_root ob) (\<lambda>_.
       for_objects options w out_root obs)"

definition default_options :: "kind \<Rightarrow> bool" where
  "default_options = (\<lambda>k. True)"

text \<open>
  \<open>extract_from_file\<close> returns the counts, or \<open>None\<close> when the file does not load. It
  raises only what \<open>env.objects\<close> raises, outside every handler.
\<close>

definition extract_from_file ::
  "world \<Rightarrow> path \<Rightarrow> path \<Rightarrow> (kind \<Rightarrow> bool) option \<Rightarrow> kind_stats option action" where
  "extract_from_file w src_path out_root options_arg =
     (let options = (case options_arg of None \<Rightarrow> default_options | Some x \<Rightarrow> x)
      in and_then (logging (Processing src_path)) (\<lambda>_.
         and_then (try_except (and_then (call (load w src_path)) (\<lambda>en. ret (Some en)))
                     (\<lambda>e. and_then (logging (LoadFailed src_path e)) (\<lambda>_. ret None)))
           (\<lambda>loaded.
              case loaded of
                None \<Rightarrow> ret None
              | Some en \<Rightarrow>
                  and_then (\<lambda>s. (Inr (), s\<lparr>stats := zero_stats\<rparr>)) (\<lambda>_.
                  and_then (call (objects en)) (\<lambda>obs.
                  and_then (for_objects options w out_root obs) (\<lambda>_.
                  and_then (\<lambda>s. (Inr (), s\<lparr>log := log s @ [StatsLine (stats_items (stats s))]\<rparr>))
                    (\<lambda>_. (\<lambda>s. (Inr (Some (stats s)), s)))))))))"

section \<open>The batch loop of start\_extraction\<close>

definition add_stats :: "kind_stats \<Rightarrow> kind_stats \<Rightarrow> kind_stats" where
  "add_stats a b = (\<lambda>k. a k + b k)"

definition total_extracted :: "kind_stats \<Rightarrow> nat" where
  "total_extracted st = sum_list (map st (filter (\<lambda>k. k \<noteq> Other) all_kinds))"

text \<open>
  The body of \<open>for idx, f in enumerate(files, 1)\<close> with its handler. A dictionary of
  nine keys is truthy, so \<open>if stats:\<close> asks whether the result is not \<open>None\<close>.
\<close>

definition process_file ::
  "world \<Rightarrow> path \<Rightarrow> (kind \<Rightarrow> bool) \<Rightarrow> nat \<Rightarrow> nat \<Rightarrow> path \<Rightarrow> unit action" where
  "process_file w out_root options idx n f =
     try_except
       (and_then (ensure_dir w (out_root @ [stem_of (path_name f)])) (\<lambda>sub_out.
        and_then (gui (GuiProcessing idx n (path_name f))) (\<lambda>_.
        and_then (extract_from_file w f sub_out (Some options)) (\<lambda>res.
          case res of
            None \<Rightarrow> ret ()
          | Some st \<Rightarrow>
              and_then (\<lambda>s. (Inr (), s\<lparr>total_stats := add_stats (total_stats s) st\<rparr>)) (\<lambda>_.
                gui (GuiExtracted (total_extracted st)))))))
       (\<lambda>e. and_then (gui (GuiError (path_name f) e)) (\<lambda>_. logging (Traceback e)))"

fun for_files ::
  "world \<Rightarrow> path \<Rightarrow> (kind \<Rightarrow> bool) \<Rightarrow> nat \<Rightarrow> nat \<Rightarrow> path list \<Rightarrow> unit action" where
  "for_files w out_root options idx n [] = ret ()"
| "for_files w out_root options idx n (f # fs) =
     and_then (process_file w out_root options idx n f) (\<lambda>_.
       for_files w out_root options (Suc idx) n fs)"

text \<open>From \<open>total_stats = {k: 0 ...}\<close> to the end of the loop.\<close>

definition run_batch :: "world \<Rightarrow> path \<Rightarrow> (kind \<Rightarrow> bool) \<Rightarrow> path list \<Rightarrow> unit action" where
  "run_batch w out_root options files =
     and_then (\<lambda>s. (Inr (), s\<lparr>total_stats := zero_stats\<rparr>)) (\<lambda>_.
       for_files w out_root options 1 (length files) files)"

definition initial_state :: state where
  "initial_state =
     \<lparr>dirs = {}, writes = [], log = [], gui_log = [], stats = zero_stats,
      total_stats = zero_stats\<rparr>"

section \<open>A world for examples\<close>

text \<open>
  A world in which no file loads or reads, directories are empty and no \<open>mkdir\<close> or
  \<open>open\<close> fails; the examples below change the fields they are about.
\<close>

definition quiet_world :: world where
  "quiet_world =
     \<lparr>load = (\<lambda>p. Inl (Exception (ustr ''cannot load''))),
      file_bytes = (\<lambda>p. Inl (Exception (ustr ''cannot read''))),
      rglob = (\<lambda>p. ([], None)),
      iterdir = (\<lambda>p. ([], None)),
      mkdir_error = (\<lambda>p. None),
      open_error = (\<lambda>p. None),
      str_of = (\<lambda>v. []),
      lower_tab = (\<lambda>s i. []),
      other_type_name = (\<lambda>v. ustr ''object''),
      encode_error = (\<lambda>t. Exception (ustr ''surrogates not allowed''))\<rparr>"

text \<open>A loaded file that shows no version and holds the given objects.\<close>

definition plain_env :: "obj list \<Rightarrow> env" where
  "plain_env obs = \<lparr>env_version = Inr None, objects = Inr obs\<rparr>"

text \<open>
  What is known of \<open>str.lower()\<close> beyond ASCII and used below: it never yields an
  upper-case ASCII letter.
\<close>

definition lower_sane :: "world \<Rightarrow> bool" where
  "lower_sane w = (\<forall>s i. \<forall>c \<in> set (lower_tab w s i). \<not> (65 \<le> c \<and> c \<le> 90))"

definition example_dir :: "ustring list \<Rightarrow> dir_entry list" where
  "example_dir names = map (\<lambda>n. \<lparr>entry_path = [ustr ''game'', n], is_file = True\<rparr>) names"

text \<open>A decoded object with no attribute of interest, and objects built on it.\<close>

definition no_data :: decoded where
  "no_data =
     \<lparr>name_attr = None, m_Name = None, image = Inr None, samples = Inr [],
      export = Inl (Exception (ustr ''no export'')), m_Script = None, script = None,
      text_attr = None, m_FontData = None, read_typetree = Inr None\<rparr>"

definition bare_obj :: "string \<Rightarrow> int \<Rightarrow> obj" where
  "bare_obj t pid = \<lparr>tname = t, path_id = pid, read = Inr no_data\<rparr>"

definition broken_obj :: "string \<Rightarrow> int \<Rightarrow> obj" where
  "broken_obj t pid =
     \<lparr>tname = t, path_id = pid, read = Inl (Exception (ustr ''cannot decode''))\<rparr>"

definition mesh_obj :: "int \<Rightarrow> obj" where
  "mesh_obj pid =
     \<lparr>tname = ''Mesh'', path_id = pid,
      read = Inr (no_data\<lparr>m_Name := Some (Some (ustr ''rock'')),
                           export := Inr (ustr ''v 0 0 0'')\<rparr>)\<rparr>"

definition texture_obj :: "int \<Rightarrow> obj" where
  "texture_obj pid =
     \<lparr>tname = ''Texture2D'', path_id = pid,
      read = Inr (no_data\<lparr>m_Name := Some (Some (ustr ''rock'')),
                           image := Inr (Some (Image (Inr ''png'')))\<rparr>)\<rparr>"

section \<open>What an action may touch\<close>

text \<open>
  The kind whose branch an object reaches in the \<open>if\<close>/\<open>elif\<close> chain, \<open>Other\<close> when it
  reaches the final \<open>else\<close>.
\<close>

definition obj_kind :: "(kind \<Rightarrow> bool) \<Rightarrow> obj \<Rightarrow> kind" where
  "obj_kind options ob =
     (if tname ob = ''Texture2D'' \<and> options Textures then Textures
      else if tname ob = ''Sprite'' \<and> options Sprites then Sprites
      else if tname ob = ''AudioClip'' \<and> options Audio then Audio
      else if tname ob = ''Mesh'' \<and> options Meshes then Meshes
      else if tname ob = ''TextAsset'' \<and> options Texts then Texts
      else if tname ob = ''Font'' \<and> options Fonts then Fonts
      else if tname ob \<in> set [''MonoBehaviour'', ''MonoScript''] \<and> options Scripts then Scripts
      else if tname ob = ''Material'' \<and> options Materials then Materials
      else Other)"

text \<open>
  Whether the branch of kind \<open>k\<close> gets as far as its \<open>ensure_dir\<close> on an object: for a
  texture, a mesh and a material that is when there is an item to write (an image, an
  export, a type tree); for audio, text and font, when the object decodes; for a sprite
  and a script, always.
\<close>

definition reaches_mkdir :: "kind \<Rightarrow> obj \<Rightarrow> bool" where
  "reaches_mkdir k ob =
     (if k = Sprites \<or> k = Scripts then True
      else (case read ob of
              Inl e \<Rightarrow> False
            | Inr d \<Rightarrow>
                if k = Textures then (case image d of Inr (Some im) \<Rightarrow> True | _ \<Rightarrow> False)
                else if k = Audio then (case samples d of Inr x \<Rightarrow> True | _ \<Rightarrow> False)
                else if k = Meshes then (case export d of Inr t \<Rightarrow> True | _ \<Rightarrow> False)
                else if k = Materials
                  then (case read_typetree d of Inr (Some t) \<Rightarrow> True | _ \<Rightarrow> False)
                else k \<noteq> Other))"

text \<open>The directory of a kind with its parents, as \<open>ensure_dir\<close> makes them.\<close>

definition kind_dirs :: "path \<Rightarrow> kind \<Rightarrow> path set" where
  "kind_dirs out_root k = set (tl (prefixes (out_root @ [kind_key k])))"

definition made_dirs :: "(kind \<Rightarrow> bool) \<Rightarrow> path \<Rightarrow> obj \<Rightarrow> path set" where
  "made_dirs options out_root ob =
     (if obj_kind options ob \<noteq> Other \<and> reaches_mkdir (obj_kind options ob) ob
      then kind_dirs out_root (obj_kind options ob) else {})"

text \<open>The paths \<open><kind>/<name>_<id><ext>\<close> under the output root, for one id.\<close>

definition id_exts :: "ustring set" where
  "id_exts = {ustr ''.png'', ustr ''.cs'', ustr ''.txt'', ustr ''.json''}"

definition id_paths :: "path \<Rightarrow> kind \<Rightarrow> int \<Rightarrow> path set" where
  "id_paths out_root k pid =
     {out_root @ [kind_key k, n @ ustr ''_'' @ str_int pid @ e] | n e. e \<in> id_exts}"

definition id_kinds :: "kind set" where
  "id_kinds = {Textures, Sprites, Scripts, Materials}"

definition obj_paths :: "(kind \<Rightarrow> bool) \<Rightarrow> path \<Rightarrow> obj \<Rightarrow> path set" where
  "obj_paths options out_root ob =
     (if obj_kind options ob \<in> id_kinds
      then id_paths out_root (obj_kind options ob) (path_id ob) else UNIV)"

text \<open>The paths an action writes to when run from a state.\<close>

definition written :: "'a action \<Rightarrow> state \<Rightarrow> path set" where
  "written m s = fst ` set (drop (length (writes s)) (writes (snd (m s))))"

text \<open>
  A step from \<open>s\<close> to \<open>s'\<close> that makes directories in \<open>D\<close> only, appends writes to
  paths in \<open>W\<close> only, raises counters of kinds in \<open>K\<close> only and lowers none, and leaves
  the totals of the batch alone; and an action all of whose runs are such steps.
\<close>

definition step_ok :: "path set \<Rightarrow> path set \<Rightarrow> kind set \<Rightarrow> state \<Rightarrow> state \<Rightarrow> bool" where
  "step_ok D W K s s' =
     (dirs s' \<subseteq> dirs s \<union> D \<and>
      (\<exists>ws. writes s' = writes s @ ws \<and> fst ` set ws \<subseteq> W) \<and>
      (\<forall>k. stats s k \<le> stats s' k) \<and>
      (\<forall>k. k \<notin> K \<longrightarrow> stats s' k = stats s k) \<and>
      total_stats s' = total_stats s)"

definition effects :: "path set \<Rightarrow> path set \<Rightarrow> kind set \<Rightarrow> 'a action \<Rightarrow> bool" where
  "effects D W K m = (\<forall>s. step_ok D W K s (snd (m s)))"

text \<open>
  An action whose result and whose counters afterwards depend on the counters before and
  on nothing else of the state.
\<close>

definition stats_det :: "'a action \<Rightarrow> bool" where
  "stats_det m =
     (\<forall>s t. stats s = stats t \<longrightarrow>
        fst (m s) = fst (m t) \<and> stats (snd (m s)) = stats (snd (m t)))"

text \<open>
  What one file adds to the totals of a batch: the counts \<open>extract_from_file\<close> returns
  for it, and nothing when its output directory cannot be made, when it does not load
  (the result is \<open>None\<close>) or when the extraction raises.
\<close>

definition file_result :: "world \<Rightarrow> path \<Rightarrow> (kind \<Rightarrow> bool) \<Rightarrow> path \<Rightarrow> exc + kind_stats option" where
  "file_result w out_root options f =
     fst (extract_from_file w f (out_root @ [stem_of (path_name f)]) (Some options)
            initial_state)"

definition file_stats :: "world \<Rightarrow> path \<Rightarrow> (kind \<Rightarrow> bool) \<Rightarrow> path \<Rightarrow> kind_stats" where
  "file_stats w out_root options f =
     (case mkdir_error w (out_root @ [stem_of (path_name f)]) of
        Some e \<Rightarrow> zero_stats
      | None \<Rightarrow>
          (case file_result w out_root options f of
             Inr (Some st) \<Rightarrow> st
           | _ \<Rightarrow> zero_stats))"

text \<open>Reading a string of ASCII digits back, the inverse of \<open>str_nat\<close>.\<close>

fun nat_of_digits :: "ustring \<Rightarrow> nat" where
  "nat_of_digits ds = foldl (\<lambda>a d. 10 * a + (d - 48)) 0 ds"

text \<open>\<open>isinstance(v, str) or isinstance(v, (bytes, bytearray))\<close>\<close>

definition is_str_or_bytes :: "pyval \<Rightarrow> bool" where
  "is_str_or_bytes v = (case v of PyStr t \<Rightarrow> True | PyBytes b \<Rightarrow> True | _ \<Rightarrow> False)"

text \<open>A world of three files by name, the second of which does not load.\<close>

definition second_fails :: world where
  "second_fails =
     quiet_world\<lparr>load := \<lambda>p. if p = [ustr ''b.assets'']
                               then Inl (Exception (ustr ''cannot load''))
                               else Inr (plain_env [bare_obj ''Shader'' 1, bare_obj ''TextAsset'' 2])\<rparr>"

section \<open>Evaluating the examples\<close>

lemma str_nat_small: "n < 10 \<Longrightarrow> str_nat n = [48 + n]"
  by (subst str_nat.simps) simp

lemmas action_eval = ret_def raise_def and_then_def try_except_def call_def logging_def gui_def
  incr_def ensure_dir_def write_file_def
lemmas branch_eval = dispatch_def handle_object_def texture_branch_def sprite_branch_def
  audio_branch_def mesh_branch_def text_branch_def font_branch_def script_branch_def
  material_branch_def extract_sprite_def extract_mono_script_def script_typetree_def
  text_data_def py_or_def getattr_def str_or_def extract_from_file_def default_options_def
lemmas example_eval = no_data_def mesh_obj_def texture_obj_def bare_obj_def broken_obj_def
  quiet_world_def initial_state_def plain_env_def zero_stats_def
lemmas name_eval = sanitize_name_def keep_def ustr_def underscore_def str_int_def str_nat_small
  Let_def

section \<open>Properties of sanitize\_name\<close>

lemma underscore_in_keep: "underscore \<in> set keep"
  by (simp add: keep_def ustr_def underscore_def)

lemma unnamed_in_keep: "set (ustr ''unnamed'') \<subseteq> set keep"
  by (simp add: keep_def ustr_def)

lemma sanitize_name_subset: "set (sanitize_name name) \<subseteq> set keep"
  using underscore_in_keep by (auto simp: sanitize_name_def)

lemma sanitize_name_nonempty: "sanitize_name name \<noteq> []"
  by (simp add: sanitize_name_def str_or_def ustr_def split: option.splits)

text \<open>
  Claim C5. \<open>sanitize_name\<close> is defined on every string and on \<open>None\<close>: it replaces each
  character outside the allow-list by an underscore, takes \<open>"unnamed"\<close> for the empty
  string and for \<open>None\<close>, and its result holds allow-listed characters only and is never
  empty.
\<close>

theorem sanitize_name_total:
  "sanitize_name name =
     map (\<lambda>c. if c \<in> set keep then c else underscore)
       (case name of
          None \<Rightarrow> ustr ''unnamed''
        | Some s \<Rightarrow> if s = [] then ustr ''unnamed'' else s)
   \<and> sanitize_name None = ustr ''unnamed''
   \<and> sanitize_name (Some []) = ustr ''unnamed''
   \<and> set (sanitize_name name) \<subseteq> set keep
   \<and> sanitize_name name \<noteq> []"
proof -
  have u: "map (\<lambda>c. if c \<in> set keep then c else underscore) (ustr ''unnamed'') = ustr ''unnamed''"
    using unnamed_in_keep by (simp add: map_idI subset_iff)
  have "sanitize_name name =
     map (\<lambda>c. if c \<in> set keep then c else underscore)
       (case name of
          None \<Rightarrow> ustr ''unnamed''
        | Some s \<Rightarrow> if s = [] then ustr ''unnamed'' else s)"
    by (simp add: sanitize_name_def str_or_def split: option.splits)
  moreover have "sanitize_name None = ustr ''unnamed''"
    and "sanitize_name (Some []) = ustr ''unnamed''"
    using u by (simp_all add: sanitize_name_def str_or_def)
  ultimately show ?thesis
    using sanitize_name_subset sanitize_name_nonempty by blast
qed

text \<open>A name made of disallowed characters only, and one that mixes both.\<close>

lemma sanitize_name_examples:
  "sanitize_name (Some (ustr ''/:*'')) = ustr ''___''"
  "sanitize_name (Some (ustr ''a/b c.png'')) = ustr ''a_b c.png''"
  by (simp_all add: sanitize_name_def str_or_def ustr_def keep_def underscore_def)

section \<open>Properties of check\_version\_compatibility\<close>

lemma int_of_digits_Some:
  "\<forall>c \<in> set s. is_udigit nd c \<Longrightarrow> \<exists>v. int_of_digits nd s acc = Some v"
  by (induction s arbitrary: acc) (auto simp: is_udigit_def split: option.splits)

lemma match_major_minor_digits:
  assumes "match_major_minor nd s = Some (g1, g2)"
  shows "g1 \<noteq> [] \<and> g2 \<noteq> [] \<and> (\<forall>c \<in> set g1. is_udigit nd c) \<and> (\<forall>c \<in> set g2. is_udigit nd c)"
  using assms
  by (auto simp: match_major_minor_def Let_def split: if_splits list.splits dest: set_takeWhileD)

lemma int_of_decimal_unlimited: "int_of_decimal 0 nd s = (if s = [] then None else int_of_digits nd s 0)"
  by (simp add: int_of_decimal_def over_limit_def)

lemma int_of_decimal_limited:
  "int_of_decimal lim nd s = (if over_limit lim s then None else int_of_decimal 0 nd s)"
  by (simp add: int_of_decimal_def over_limit_def)

text \<open>
  Of digits \<open>int\<close> fails only by their number: a version string has a leading
  \<open><major>.<minor>\<close> exactly when the pattern matches.
\<close>

lemma leading_None_iff:
  "leading_major_minor nd s = None \<longleftrightarrow> match_major_minor nd s = None"
proof (cases "match_major_minor nd s")
  case None
  then show ?thesis by (simp add: leading_major_minor_def)
next
  case (Some g)
  obtain g1 g2 where g: "g = (g1, g2)" by (cases g)
  from match_major_minor_digits[of nd s g1 g2] Some g
  have d: "g1 \<noteq> []" "g2 \<noteq> []" "\<forall>c \<in> set g1. is_udigit nd c" "\<forall>c \<in> set g2. is_udigit nd c"
    by auto
  obtain a where a: "int_of_digits nd g1 0 = Some a"
    using int_of_digits_Some[OF d(3)] by blast
  obtain b where b: "int_of_digits nd g2 0 = Some b"
    using int_of_digits_Some[OF d(4)] by blast
  show ?thesis using Some g a b d(1,2)
    by (simp add: leading_major_minor_def int_of_decimal_unlimited)
qed

lemmas version_eval =
  check_version_compatibility_def match_major_minor_def is_udigit_def digit_value_def
  int_of_decimal_def over_limit_def valid_limit_def ustr_def inconclusive_def Let_def

lemma check_version_compatibility_split:
  "check_version_compatibility lim nd s =
     (case leading_major_minor nd s of
        None \<Rightarrow> (True, ustr ''Version check inconclusive'')
      | Some (major, minor) \<Rightarrow>
          if too_long lim nd s then (True, ustr ''Version check inconclusive'')
          else if major < 3 \<or> (major = 3 \<and> minor < 4)
          then (False, ustr ''Unity version too old (< 3.4)'')
          else if major > 2023
          then (True, ustr ''Newer version - may have limited support'')
          else (True, ustr ''Fully supported''))"
proof (cases "match_major_minor nd s")
  case None
  then show ?thesis
    by (simp add: check_version_compatibility_def leading_major_minor_def inconclusive_def)
next
  case (Some g)
  obtain g1 g2 where g: "g = (g1, g2)" by (cases g)
  show ?thesis
    using Some g
    by (simp add: check_version_compatibility_def leading_major_minor_def too_long_def
          inconclusive_def int_of_decimal_limited[of lim] split: option.splits)
qed

lemma takeWhile_replicate_append:
  "P x \<Longrightarrow> takeWhile P (replicate n x @ ys) = replicate n x @ takeWhile P ys"
  by (induction n) simp_all

lemma dropWhile_replicate_append:
  "P x \<Longrightarrow> dropWhile P (replicate n x @ ys) = dropWhile P ys"
  by (induction n) simp_all

lemma int_of_digits_zeros: "int_of_digits nd (replicate n 48) 0 = Some 0"
  by (induction n) (simp_all add: digit_value_def)

lemma match_long_minor:
  "0 < n \<Longrightarrow> match_major_minor nd (ustr ''5.'' @ replicate n 48) = Some ([53], replicate n 48)"
  using takeWhile_replicate_append[of "is_udigit nd" 48 n "[]"]
  by (auto simp: match_major_minor_def ustr_def is_udigit_def digit_value_def Let_def)

text \<open>
  Claim C4, as stated, fails: major 5 and a minor of 4301 zeros are version 5.0, fully
  supported by the rules, and the classifier answers inconclusive, since \<open>int\<close> raises on
  the minor and the bare \<open>except\<close> catches it.
\<close>

theorem long_minor_inconclusive:
  "leading_major_minor (\<lambda>c. None) (ustr ''5.'' @ replicate 4301 48) = Some (5, 0)
   \<and> check_version_compatibility 4300 (\<lambda>c. None) (ustr ''5.'' @ replicate 4301 48) =
       (True, ustr ''Version check inconclusive'')"
proof -
  have m: "match_major_minor (\<lambda>c. None) (ustr ''5.'' @ replicate 4301 48) =
             Some ([53], replicate 4301 48)"
    by (rule match_long_minor) simp
  have a: "leading_major_minor (\<lambda>c. None) (ustr ''5.'' @ replicate 4301 48) = Some (5, 0)"
    by (simp add: leading_major_minor_def m int_of_decimal_unlimited int_of_digits_zeros
          digit_value_def)
  have b: "check_version_compatibility 4300 (\<lambda>c. None) (ustr ''5.'' @ replicate 4301 48) =
       (True, ustr ''Version check inconclusive'')"
    by (simp add: check_version_compatibility_def m int_of_decimal_def over_limit_def
          inconclusive_def digit_value_def)
  show ?thesis using a b by simp
qed

text \<open>
  Claim C4, amended. Whatever the version string, the classifier answers by its rules in
  order: inconclusive when the string has no leading \<open><major>.<minor>\<close> (which is when the
  pattern does not match) or when major or minor has more digits than \<open>int\<close> converts
  (4300 unless the limit was changed); otherwise too old below 3.4, newer above 2023 and
  fully supported in between. The four examples of the specification come out as stated.
\<close>

theorem check_version_compatibility_rules:
  assumes "valid_limit lim"
  shows "check_version_compatibility lim nd s =
     (case leading_major_minor nd s of
        None \<Rightarrow> (True, ustr ''Version check inconclusive'')
      | Some (major, minor) \<Rightarrow>
          if too_long lim nd s then (True, ustr ''Version check inconclusive'')
          else if major < 3 \<or> (major = 3 \<and> minor < 4)
          then (False, ustr ''Unity version too old (< 3.4)'')
          else if major > 2023
          then (True, ustr ''Newer version - may have limited support'')
          else (True, ustr ''Fully supported''))
   \<and> ((leading_major_minor nd s = None) = (match_major_minor nd s = None))
   \<and> check_version_compatibility lim nd (ustr ''3.3.9'') =
       (False, ustr ''Unity version too old (< 3.4)'')
   \<and> check_version_compatibility lim nd (ustr ''2021.3.10f1'') = (True, ustr ''Fully supported'')
   \<and> check_version_compatibility lim nd (ustr ''2025.1'') =
       (True, ustr ''Newer version - may have limited support'')
   \<and> check_version_compatibility lim nd (ustr ''not-a-version'') =
       (True, ustr ''Version check inconclusive'')"
proof -
  have e1: "check_version_compatibility lim nd (ustr ''3.3.9'') =
       (False, ustr ''Unity version too old (< 3.4)'')"
    using assms by (auto simp: version_eval)
  have e2: "check_version_compatibility lim nd (ustr ''2021.3.10f1'') = (True, ustr ''Fully supported'')"
    using assms by (auto simp: version_eval)
  have e3: "check_version_compatibility lim nd (ustr ''2025.1'') =
       (True, ustr ''Newer version - may have limited support'')"
    using assms by (auto simp: version_eval)
  have e4: "check_version_compatibility lim nd (ustr ''not-a-version'') =
       (True, ustr ''Version check inconclusive'')"
    by (simp add: version_eval)
  show ?thesis
    using check_version_compatibility_split[of lim nd s] leading_None_iff[of nd s] e1 e2 e3 e4
    by blast
qed

theorem check_version_compatibility_rules_witness:
  "check_version_compatibility 4300 (\<lambda>c. None) (ustr ''2021.3.10f1'') =
     (True, ustr ''Fully supported'')
   \<and> check_version_compatibility 4300 (\<lambda>c. None) (ustr ''3.3.9'') =
     (False, ustr ''Unity version too old (< 3.4)'')"
proof -
  have v: "valid_limit 4300" by (simp add: valid_limit_def)
  show ?thesis
    using check_version_compatibility_rules[OF v, of "\<lambda>c. None" "[]"] by blast
qed

section \<open>Properties of detect\_unity\_version\<close>

lemma re_search_None_iff:
  "re_search p h = None \<longleftrightarrow> (\<forall>t \<in> set (suffixes h). p t = None)"
  by (induction h) (auto split: option.splits)

lemma suffix_drop: "suffix (drop n h) h"
  by (metis append_take_drop_id suffixI)

text \<open>
  Wherever \<open>Unity <major>.<minor>.<patch>\<close> is found, the bare version is found too (at
  the digits): the second pattern of the list never decides.
\<close>

lemma unity_implies_bare:
  assumes "re_search pat_bare h = None"
  shows "re_search pat_unity h = None"
proof -
  have none: "\<forall>t. suffix t h \<longrightarrow> pat_bare t = None"
    using assms by (simp add: re_search_None_iff)
  have "pat_unity t = None" if "suffix t h" for t
  proof (cases "prefix ''Unity '' t")
    case False
    then show ?thesis by (simp add: pat_unity_def)
  next
    case True
    have "suffix (drop 6 t) h"
      using that suffix_drop suffix_order.trans by blast
    then have "pat_bare (drop 6 t) = None" using none by blast
    then have "match_dotted3 (drop 6 t) = None"
      by (auto simp: pat_bare_def split: option.splits)
    then show ?thesis by (simp add: pat_unity_def)
  qed
  then show ?thesis by (simp add: re_search_None_iff)
qed

lemmas pattern_eval =
  version_patterns_def spec_priority_def pat_bare_def pat_unity_def pat_unityfs_def
  match_dotted3_def match_dotted2_def is_digit_def is_lower_alnum_def Let_def

text \<open>
  Claim C1, as stated, fails: on the header \<open>Unity 5.6.1f1\<close> two patterns match, and the
  result \<open>5.6.1f1\<close> is the bare version's, not \<open>5.6.1\<close> of the pattern the claim puts
  first; and \<open>UnityFS\<close> followed by a version on the next line is not found.
\<close>

theorem header_priority_counterexample:
  "first_match version_patterns (take 1024 ''Unity 5.6.1f1'') = Some ''5.6.1f1''
   \<and> first_match spec_priority (take 1024 ''Unity 5.6.1f1'') = Some ''5.6.1''
   \<and> first_match version_patterns (take 1024 (''UnityFS'' @ [CHR 0x0A] @ ''5.6'')) = None"
  by (simp add: pattern_eval)

text \<open>
  Claim C1, amended. When the parser shows no version, the first 1024 bytes are matched
  against the patterns in the order of the source: the bare
  \<open><major>.<minor>.<patch><suffix>\<close> first, \<open>Unity <major>.<minor>.<patch>\<close> second,
  \<open>UnityFS\<close> followed on the same line by \<open><major>.<minor>\<close> third, and the earliest
  pattern that matches gives the result. So the result is the bare version when there is
  one, and otherwise that of the third pattern, the second matching only where the first
  does.
\<close>

theorem header_pattern_order:
  "first_match version_patterns header =
     (case re_search pat_bare header of
        Some g \<Rightarrow> Some g
      | None \<Rightarrow> re_search pat_unityfs header)
   \<and> (re_search pat_bare header = None \<longrightarrow> re_search pat_unity header = None)
   \<and> (load w p = Inr en \<and> env_version en = Inr None \<and> file_bytes w p = Inr content \<longrightarrow>
        fst (detect_unity_version w p) =
          (case first_match version_patterns (take 1024 content) of
             Some g \<Rightarrow>
               \<lparr>version = decode g, detected_from = Some (path_name p), compatible = True,
                warning = None\<rparr>
           | None \<Rightarrow> unknown_version))"
proof -
  have "first_match version_patterns header =
     (case re_search pat_bare header of
        Some g \<Rightarrow> Some g
      | None \<Rightarrow> re_search pat_unityfs header)"
    using unity_implies_bare[of header]
    by (auto simp: version_patterns_def split: option.splits)
  moreover have "re_search pat_bare header = None \<longrightarrow> re_search pat_unity header = None"
    using unity_implies_bare by blast
  moreover have "load w p = Inr en \<and> env_version en = Inr None \<and> file_bytes w p = Inr content \<longrightarrow>
        fst (detect_unity_version w p) =
          (case first_match version_patterns (take 1024 content) of
             Some g \<Rightarrow>
               \<lparr>version = decode g, detected_from = Some (path_name p), compatible = True,
                warning = None\<rparr>
           | None \<Rightarrow> unknown_version)"
    by (auto simp: detect_unity_version_def detect_body_def unknown_version_def Let_def
          split: option.splits)
  ultimately show ?thesis by blast
qed

theorem header_pattern_order_witness:
  "re_search pat_bare ''UnityFS 5.x.0 5.6'' = None
   \<and> re_search pat_unity ''UnityFS 5.x.0 5.6'' = None
   \<and> first_match version_patterns ''UnityFS 5.x.0 5.6'' = Some ''5.6''
   \<and> fst (detect_unity_version
        (quiet_world\<lparr>load := \<lambda>p. Inr (plain_env []),
                      file_bytes := \<lambda>p. Inr ''Unity 5.6.1f1''\<rparr>)
        [ustr ''game'', ustr ''level0'']) =
       \<lparr>version = ustr ''5.6.1f1'', detected_from = Some (ustr ''level0''),
        compatible = True, warning = None\<rparr>"
  using header_pattern_order[of "''UnityFS 5.x.0 5.6''"
      "quiet_world\<lparr>load := \<lambda>p. Inr (plain_env []), file_bytes := \<lambda>p. Inr ''Unity 5.6.1f1''\<rparr>"
      "[ustr ''game'', ustr ''level0'']" "plain_env []" "''Unity 5.6.1f1''"]
  by (simp add: pattern_eval quiet_world_def plain_env_def decode_def ustr_def path_name_def)

text \<open>
  Claim C8. Detection returns a record for every world and path. When loading raises,
  when reading the version attribute raises, when reading the file raises, or when no
  pattern matches, the record is \<open>version = "Unknown"\<close>, \<open>detected_from = None\<close>,
  \<open>compatible = True\<close>, with the text of the exception as the warning, or no warning when
  nothing was raised; whatever the body raises ends in that record.
\<close>

theorem detect_degrades_to_unknown:
  "(load w p = Inl e \<longrightarrow>
      fst (detect_unity_version w p) =
        \<lparr>version = ustr ''Unknown'', detected_from = None, compatible = True,
         warning = Some (exc_text e)\<rparr>)
   \<and> (load w p = Inr en \<and> env_version en = Inl e \<longrightarrow>
      fst (detect_unity_version w p) =
        \<lparr>version = ustr ''Unknown'', detected_from = None, compatible = True,
         warning = Some (exc_text e)\<rparr>)
   \<and> (load w p = Inr en \<and> env_version en = Inr None \<and> file_bytes w p = Inl e \<longrightarrow>
      fst (detect_unity_version w p) =
        \<lparr>version = ustr ''Unknown'', detected_from = None, compatible = True,
         warning = Some (exc_text e)\<rparr>)
   \<and> (load w p = Inr en \<and> env_version en = Inr None \<and> file_bytes w p = Inr content \<and>
        first_match version_patterns (take 1024 content) = None \<longrightarrow>
      fst (detect_unity_version w p) =
        \<lparr>version = ustr ''Unknown'', detected_from = None, compatible = True,
         warning = None\<rparr>)
   \<and> (fst (detect_body w p unknown_version) = Some e \<longrightarrow>
      detect_unity_version w p =
        (\<lparr>version = ustr ''Unknown'', detected_from = None, compatible = True,
          warning = Some (exc_text e)\<rparr>, Some e))
   \<and> compatible (fst (detect_unity_version w p))"
  by (auto simp: detect_unity_version_def detect_body_def unknown_version_def Let_def
        split: sum.splits option.splits prod.splits)

theorem detect_degrades_to_unknown_witness:
  "fst (detect_unity_version quiet_world [ustr ''a.assets'']) =
     \<lparr>version = ustr ''Unknown'', detected_from = None, compatible = True,
      warning = Some (ustr ''cannot load'')\<rparr>
   \<and> fst (detect_unity_version
        (quiet_world\<lparr>load := \<lambda>p. Inr (plain_env []), file_bytes := \<lambda>p. Inr ''no version here''\<rparr>)
        [ustr ''a.assets'']) =
     \<lparr>version = ustr ''Unknown'', detected_from = None, compatible = True, warning = None\<rparr>"
  using detect_degrades_to_unknown[of quiet_world "[ustr ''a.assets'']"
      "Exception (ustr ''cannot load'')"]
    detect_degrades_to_unknown[of
      "quiet_world\<lparr>load := \<lambda>p. Inr (plain_env []), file_bytes := \<lambda>p. Inr ''no version here''\<rparr>"
      "[ustr ''a.assets'']" _ "plain_env []" "''no version here''"]
  by (simp add: quiet_world_def plain_env_def pattern_eval)

section \<open>Properties of find\_input\_files\<close>

lemma lower_from_no_upper:
  assumes "lower_sane w"
  shows "\<forall>c \<in> set (lower_from (lower_tab w) s i t). \<not> (65 \<le> c \<and> c \<le> 90)"
  using assms by (induction t arbitrary: i) (auto simp: lower_sane_def ascii_lower_def)

lemma lower_not_resS:
  assumes "lower_sane w"
  shows "lower (lower_tab w) x \<noteq> ustr ''.resS''"
proof
  assume "lower (lower_tab w) x = ustr ''.resS''"
  then have "83 \<in> set (lower (lower_tab w) x)" by (simp add: ustr_def)
  then show False using lower_from_no_upper[OF assms, of x 0 x] by (auto simp: lower_def)
qed

lemma lower_spec_exts:
  "map (lower tab) spec_exts = map ustr
     [''.assets'', ''.unity3d'', ''.assetbundle'', ''.bundle'', ''.ress'', ''.sharedassets'',
      ''.resources'', ''.resource'', ''.dat'', ''.ress'']"
  by (simp add: spec_exts_def lower_def ustr_def ascii_lower_def)

lemma lower_name_keys: "map (lower tab) name_keys = name_keys"
  by (simp add: name_keys_def lower_def ustr_def ascii_lower_def)

lemma list_ex_map_eq: "list_ex (\<lambda>x. P (f x)) xs = list_ex P (map f xs)"
  by (induction xs) auto

text \<open>
  The test of the code, which lower-cases the extension only and looks it up in a set that
  holds \<open>.resS\<close> as written, keeps the same files as the rule of the specification.
\<close>

lemma is_candidate_spec:
  assumes "lower_sane w"
  shows "is_candidate w default_exts p = spec_keeps w p"
proof -
  let ?l = "lower (lower_tab w)"
  have a: "list_ex (\<lambda>x. ?l (suffix_of (path_name p)) = ?l x) spec_exts
           = (?l (suffix_of (path_name p)) \<in> set (map ?l spec_exts))"
    by (auto simp: list_ex_iff)
  have b: "(?l (suffix_of (path_name p)) \<in> set (map ?l spec_exts))
           = (?l (suffix_of (path_name p)) \<in> default_exts)"
    using lower_not_resS[OF assms, of "suffix_of (path_name p)"]
    unfolding lower_spec_exts default_exts_def by auto
  have c: "list_ex (\<lambda>k. contains (?l k) (?l (path_name p))) name_keys
         = list_ex (\<lambda>k. contains k (?l (path_name p))) name_keys"
    using list_ex_map_eq[of "\<lambda>k. contains k (?l (path_name p))" ?l name_keys]
    by (simp add: lower_name_keys)
  show ?thesis
    unfolding is_candidate_def spec_keeps_def a b c by simp
qed

lemmas discovery_eval =
  find_input_files_def quiet_world_def example_dir_def is_candidate_def path_name_def
  suffix_of_def lower_def ascii_lower_def default_exts_def name_keys_def ustr_def Let_def

text \<open>
  Claim C6. For a directory, discovery keeps exactly the files of the recursive
  enumeration that the rule of the specification keeps (extension, up to case, in the
  fixed set, or name, up to case, containing one of the fixed words), in the order of the
  enumeration; when there are none it returns the files listed directly under the root.
\<close>

theorem find_input_files_keeps:
  assumes "lower_sane w"
  shows "fst (find_input_files w root None) =
     (let kept = map entry_path
                   (filter (\<lambda>e. is_file e \<and> spec_keeps w (entry_path e)) (fst (rglob w root)))
      in if kept \<noteq> [] then kept
         else map entry_path (filter is_file (fst (iterdir w root))))"
  using is_candidate_spec[OF assms]
  by (simp add: find_input_files_def Let_def split: prod.splits)

text \<open>
  The example of the specification, and the fallback on a directory where nothing
  matches.
\<close>

theorem find_input_files_keeps_witness:
  "fst (find_input_files
          (quiet_world\<lparr>rglob := \<lambda>p. (example_dir
             [ustr ''a.assets'', ustr ''b.txt'', ustr ''sharedassets0.resource''], None)\<rparr>)
          [ustr ''game''] None)
     = [[ustr ''game'', ustr ''a.assets''], [ustr ''game'', ustr ''sharedassets0.resource'']]
   \<and> fst (find_input_files
          (quiet_world\<lparr>rglob := \<lambda>p. (example_dir [ustr ''b.txt'', ustr ''c.png''], None),
                        iterdir := \<lambda>p. (example_dir [ustr ''b.txt'', ustr ''c.png''], None)\<rparr>)
          [ustr ''game''] None)
     = [[ustr ''game'', ustr ''b.txt''], [ustr ''game'', ustr ''c.png'']]"
proof -
  have s1: "lower_sane (quiet_world\<lparr>rglob := \<lambda>p. (example_dir
             [ustr ''a.assets'', ustr ''b.txt'', ustr ''sharedassets0.resource''], None)\<rparr>)"
    by (simp add: lower_sane_def quiet_world_def)
  have s2: "lower_sane (quiet_world\<lparr>rglob := \<lambda>p. (example_dir [ustr ''b.txt'', ustr ''c.png''], None),
                        iterdir := \<lambda>p. (example_dir [ustr ''b.txt'', ustr ''c.png''], None)\<rparr>)"
    by (simp add: lower_sane_def quiet_world_def)
  show ?thesis
    using find_input_files_keeps[OF s1, of "[ustr ''game'']"]
      find_input_files_keeps[OF s2, of "[ustr ''game'']"]
    by (simp add: discovery_eval)
qed

section \<open>Footprints of the branches\<close>

lemma step_ok_refl: "step_ok D W K s s"
  by (simp add: step_ok_def)

lemma step_ok_trans:
  assumes "step_ok D W K s s1" and "step_ok D W K s1 s2"
  shows "step_ok D W K s s2"
proof -
  obtain ws1 where ws1: "writes s1 = writes s @ ws1" "fst ` set ws1 \<subseteq> W"
    using assms(1) unfolding step_ok_def by blast
  obtain ws2 where ws2: "writes s2 = writes s1 @ ws2" "fst ` set ws2 \<subseteq> W"
    using assms(2) unfolding step_ok_def by blast
  have w: "writes s2 = writes s @ (ws1 @ ws2)" "fst ` set (ws1 @ ws2) \<subseteq> W"
    using ws1 ws2 by auto
  have d: "dirs s2 \<subseteq> dirs s \<union> D"
    using assms unfolding step_ok_def by blast
  have m: "\<forall>k. stats s k \<le> stats s2 k"
    using assms unfolding step_ok_def by (meson le_trans)
  have u: "\<forall>k. k \<notin> K \<longrightarrow> stats s2 k = stats s k"
    using assms unfolding step_ok_def by simp
  have t: "total_stats s2 = total_stats s"
    using assms unfolding step_ok_def by simp
  show ?thesis unfolding step_ok_def using w d m u t by blast
qed

lemma step_ok_mono:
  assumes "step_ok D W K s s'" and "D \<subseteq> D'" and "W \<subseteq> W'" and "K \<subseteq> K'"
  shows "step_ok D' W' K' s s'"
proof -
  obtain ws where ws: "writes s' = writes s @ ws" "fst ` set ws \<subseteq> W"
    using assms(1) unfolding step_ok_def by blast
  have w: "\<exists>ws. writes s' = writes s @ ws \<and> fst ` set ws \<subseteq> W'"
    using ws assms(3) by blast
  have d: "dirs s' \<subseteq> dirs s \<union> D'"
    using assms(1,2) unfolding step_ok_def by blast
  have u: "\<forall>k. k \<notin> K' \<longrightarrow> stats s' k = stats s k"
    using assms(1,4) unfolding step_ok_def by blast
  show ?thesis unfolding step_ok_def using w d u assms(1) unfolding step_ok_def by blast
qed

lemma effects_mono:
  assumes "effects D W K m" and "D \<subseteq> D'" and "W \<subseteq> W'" and "K \<subseteq> K'"
  shows "effects D' W' K' m"
  using assms step_ok_mono unfolding effects_def by blast

lemma effects_ret: "effects D W K (ret x)"
  by (simp add: effects_def step_ok_def ret_def)
lemma effects_raise: "effects D W K (raise e)"
  by (simp add: effects_def step_ok_def raise_def)
lemma effects_logging: "effects D W K (logging l)"
  by (simp add: effects_def step_ok_def logging_def)
lemma effects_incr: "k \<in> K \<Longrightarrow> effects D W K (incr k)"
  by (simp add: effects_def step_ok_def incr_def)
lemma effects_ensure_dir: "set (tl (prefixes p)) \<subseteq> D \<Longrightarrow> effects D W K (ensure_dir w p)"
  by (auto simp: effects_def step_ok_def ensure_dir_def split: option.splits)
lemma effects_write_file: "p \<in> W \<Longrightarrow> effects D W K (write_file w p c)"
  by (auto simp: effects_def step_ok_def write_file_def split: option.splits)

lemma effects_and_then:
  assumes "effects D W K m" and "\<And>x. effects D W K (f x)"
  shows "effects D W K (and_then m f)"
  unfolding effects_def
proof
  fix s
  obtain r s1 where ms: "m s = (r, s1)" by (cases "m s")
  have m1: "step_ok D W K s s1"
    using assms(1) ms unfolding effects_def by (metis snd_conv)
  show "step_ok D W K s (snd (and_then m f s))"
  proof (cases r)
    case (Inl e)
    then show ?thesis using ms m1 by (simp add: and_then_def)
  next
    case (Inr x)
    have "step_ok D W K s1 (snd (f x s1))"
      using assms(2)[of x] unfolding effects_def by blast
    then show ?thesis
      using ms Inr m1 by (auto simp: and_then_def intro: step_ok_trans)
  qed
qed

lemma effects_try_except:
  assumes "effects D W K m" and "\<And>e. effects D W K (h e)"
  shows "effects D W K (try_except m h)"
  unfolding effects_def
proof
  fix s
  obtain r s1 where ms: "m s = (r, s1)" by (cases "m s")
  have m1: "step_ok D W K s s1"
    using assms(1) ms unfolding effects_def by (metis snd_conv)
  show "step_ok D W K s (snd (try_except m h s))"
  proof (cases r)
    case (Inr x)
    then show ?thesis using ms m1 by (simp add: try_except_def)
  next
    case (Inl e)
    have "step_ok D W K s1 (snd (h e s1))"
      using assms(2)[of e] unfolding effects_def by blast
    then show ?thesis
      using ms Inl m1 by (auto simp: try_except_def intro: step_ok_trans)
  qed
qed

lemma and_then_call:
  "and_then (call r) f = (case r of Inl e \<Rightarrow> raise e | Inr x \<Rightarrow> f x)"
  by (auto simp: and_then_def call_def raise_def fun_eq_iff split: sum.splits)

lemma ensure_dir_result:
  "and_then (ensure_dir w p) f = and_then (ensure_dir w p) (\<lambda>_. f p)"
  by (auto simp: and_then_def ensure_dir_def fun_eq_iff split: option.splits)

lemma effects_save_image: "p \<in> W \<Longrightarrow> effects D W K (save_image w im p)"
  by (cases "(w, im, p)" rule: save_image.cases)
     (auto intro!: effects_raise effects_write_file)

lemma effects_dump_json: "p \<in> W \<Longrightarrow> effects D W K (dump_json w t p)"
  by (cases "(w, t, p)" rule: dump_json.cases)
     (auto intro!: effects_raise effects_write_file effects_and_then)

lemma effects_write_binary: "p \<in> W \<Longrightarrow> effects D W K (write_binary w p v)"
  by (cases v) (auto intro!: effects_raise effects_write_file effects_and_then)

lemma effects_write_str_or_bytes: "p \<in> W \<Longrightarrow> effects D W K (write_str_or_bytes w p v)"
  by (cases v)
     (auto intro!: effects_ret effects_raise effects_write_file effects_and_then
        simp: write_text_escaped_def)

lemmas effects_intros =
  effects_ret effects_raise effects_logging effects_incr effects_ensure_dir
  effects_write_file effects_and_then effects_try_except effects_save_image effects_dump_json
  effects_write_binary effects_write_str_or_bytes

lemma id_paths_I:
  "d = kind_key k \<Longrightarrow> e \<in> id_exts \<Longrightarrow>
   out_root @ [d, n @ ustr ''_'' @ str_int pid @ e] \<in> id_paths out_root k pid"
  unfolding id_paths_def by blast

lemma effects_texture:
  "effects (if reaches_mkdir Textures ob then kind_dirs out_root Textures else {})
     (id_paths out_root Textures (path_id ob)) {Textures} (texture_branch w out_root ob)"
  unfolding texture_branch_def Let_def and_then_call
  apply (subst ensure_dir_result)
  apply (auto intro!: effects_intros id_paths_I
      simp: kind_dirs_def id_exts_def reaches_mkdir_def split: option.splits sum.splits)
  done

lemma effects_extract_sprite:
  "effects {} (id_paths out_root Sprites pid) {}
     (extract_sprite w ob (out_root @ [ustr ''sprites'']) pid)"
  unfolding extract_sprite_def Let_def and_then_call
  by (auto intro!: effects_intros id_paths_I simp: id_exts_def split: option.splits sum.splits)

lemma effects_sprite:
  "effects (kind_dirs out_root Sprites) (id_paths out_root Sprites (path_id ob)) {Sprites}
     (sprite_branch w out_root ob)"
  unfolding sprite_branch_def
  apply (subst ensure_dir_result)
  apply (rule effects_and_then)
   apply (rule effects_ensure_dir, simp add: kind_dirs_def)
  apply (rule effects_and_then)
   apply (rule effects_mono[OF effects_extract_sprite], auto intro!: effects_intros)
  done

lemma effects_write_samples:
  "effects {} UNIV {Audio} (write_samples w out_dir pid smp)"
  by (induction smp) (auto intro!: effects_intros simp: Let_def)

lemma effects_audio:
  "effects (if reaches_mkdir Audio ob then kind_dirs out_root Audio else {}) UNIV {Audio}
     (audio_branch w out_root ob)"
  unfolding audio_branch_def and_then_call
  by (auto intro!: effects_intros effects_mono[OF effects_write_samples]
      simp: kind_dirs_def reaches_mkdir_def split: sum.splits)

lemma effects_mesh:
  "effects (if reaches_mkdir Meshes ob then kind_dirs out_root Meshes else {}) UNIV {Meshes}
     (mesh_branch w out_root ob)"
  unfolding mesh_branch_def Let_def and_then_call
  by (auto intro!: effects_intros simp: kind_dirs_def reaches_mkdir_def split: sum.splits)

lemma effects_text:
  "effects (if reaches_mkdir Texts ob then kind_dirs out_root Texts else {}) UNIV {Texts}
     (text_branch w out_root ob)"
  unfolding text_branch_def Let_def and_then_call
  by (auto intro!: effects_intros simp: kind_dirs_def reaches_mkdir_def split: sum.splits)

lemma effects_font:
  "effects (if reaches_mkdir Fonts ob then kind_dirs out_root Fonts else {}) UNIV {Fonts}
     (font_branch w out_root ob)"
  unfolding font_branch_def Let_def and_then_call
  by (auto intro!: effects_intros simp: kind_dirs_def reaches_mkdir_def split: sum.splits)

lemma effects_script_typetree:
  "p \<in> W \<Longrightarrow> effects D W K (script_typetree w scr p)"
  unfolding script_typetree_def and_then_call
  by (auto intro!: effects_intros split: option.splits sum.splits)

lemma effects_extract_mono_script:
  "effects {} (id_paths out_root Scripts pid) {}
     (extract_mono_script w ob (out_root @ [ustr ''scripts'']) pid)"
  unfolding extract_mono_script_def Let_def source_ext_def and_then_call
  by (auto intro!: effects_intros effects_script_typetree id_paths_I simp: id_exts_def
        split: option.splits sum.splits)

lemma effects_script:
  "effects (kind_dirs out_root Scripts) (id_paths out_root Scripts (path_id ob)) {Scripts}
     (script_branch w out_root ob)"
  unfolding script_branch_def
  apply (subst ensure_dir_result)
  apply (rule effects_and_then)
   apply (rule effects_ensure_dir, simp add: kind_dirs_def)
  apply (rule effects_and_then)
   apply (rule effects_mono[OF effects_extract_mono_script], auto intro!: effects_intros)
  done

lemma effects_material:
  "effects (if reaches_mkdir Materials ob then kind_dirs out_root Materials else {})
     (id_paths out_root Materials (path_id ob)) {Materials} (material_branch w out_root ob)"
  unfolding material_branch_def Let_def and_then_call
  apply (subst ensure_dir_result)
  apply (auto intro!: effects_intros id_paths_I
      simp: kind_dirs_def id_exts_def reaches_mkdir_def split: option.splits sum.splits)
  done

lemma dispatch_kind:
  "dispatch options w out_root ob =
     (case obj_kind options ob of
        Textures \<Rightarrow> texture_branch w out_root ob
      | Sprites \<Rightarrow> sprite_branch w out_root ob
      | Audio \<Rightarrow> audio_branch w out_root ob
      | Meshes \<Rightarrow> mesh_branch w out_root ob
      | Texts \<Rightarrow> text_branch w out_root ob
      | Fonts \<Rightarrow> font_branch w out_root ob
      | Scripts \<Rightarrow> script_branch w out_root ob
      | Materials \<Rightarrow> material_branch w out_root ob
      | Other \<Rightarrow> incr Other)"
  by (simp add: dispatch_def obj_kind_def)

lemma effects_dispatch:
  "effects (made_dirs options out_root ob) (obj_paths options out_root ob)
     {obj_kind options ob} (dispatch options w out_root ob)"
proof (cases "obj_kind options ob")
  case Textures
  then show ?thesis
    using effects_texture[of ob out_root w]
    by (auto simp: dispatch_kind made_dirs_def obj_paths_def id_kinds_def split: if_splits)
next
  case Sprites
  then show ?thesis
    using effects_sprite[of out_root ob w]
    by (simp add: dispatch_kind made_dirs_def obj_paths_def id_kinds_def reaches_mkdir_def)
next
  case Audio
  then show ?thesis
    using effects_audio[of ob out_root w]
    by (auto simp: dispatch_kind made_dirs_def obj_paths_def id_kinds_def split: if_splits)
next
  case Meshes
  then show ?thesis
    using effects_mesh[of ob out_root w]
    by (auto simp: dispatch_kind made_dirs_def obj_paths_def id_kinds_def split: if_splits)
next
  case Texts
  then show ?thesis
    using effects_text[of ob out_root w]
    by (auto simp: dispatch_kind made_dirs_def obj_paths_def id_kinds_def split: if_splits)
next
  case Fonts
  then show ?thesis
    using effects_font[of ob out_root w]
    by (auto simp: dispatch_kind made_dirs_def obj_paths_def id_kinds_def split: if_splits)
next
  case Scripts
  then show ?thesis
    using effects_script[of out_root ob w]
    by (simp add: dispatch_kind made_dirs_def obj_paths_def id_kinds_def reaches_mkdir_def)
next
  case Materials
  then show ?thesis
    using effects_material[of ob out_root w]
    by (auto simp: dispatch_kind made_dirs_def obj_paths_def id_kinds_def split: if_splits)
next
  case Other
  then show ?thesis
    by (simp add: dispatch_kind effects_incr)
qed

lemma effects_handle_object:
  "effects (made_dirs options out_root ob) (obj_paths options out_root ob)
     {obj_kind options ob} (handle_object options w out_root ob)"
  unfolding handle_object_def
  by (intro effects_try_except effects_dispatch effects_logging)

section \<open>The loop over the objects\<close>

lemma handle_object_returns: "fst (handle_object options w out_root ob s) = Inr ()"
  by (simp add: handle_object_def try_except_def logging_def split: prod.splits sum.splits)

lemma for_objects_Cons:
  "for_objects options w out_root (ob # obs) s =
     for_objects options w out_root obs (snd (handle_object options w out_root ob s))"
proof -
  obtain r s1 where h: "handle_object options w out_root ob s = (r, s1)"
    by (cases "handle_object options w out_root ob s")
  then have "r = Inr ()" using handle_object_returns[of options w out_root ob s] by simp
  then show ?thesis using h by (simp add: and_then_def)
qed


lemma for_objects_returns: "fst (for_objects options w out_root obs s) = Inr ()"
proof (induction obs arbitrary: s)
  case Nil
  then show ?case by (simp add: ret_def)
next
  case (Cons ob obs)
  show ?case unfolding for_objects_Cons by (rule Cons.IH)
qed

lemma for_objects_step:
  "step_ok (\<Union>ob \<in> set obs. made_dirs options out_root ob) UNIV UNIV s
     (snd (for_objects options w out_root obs s))"
proof (induction obs arbitrary: s)
  case Nil
  then show ?case by (simp add: ret_def step_ok_refl)
next
  case (Cons ob obs)
  let ?D = "\<Union>x \<in> set (ob # obs). made_dirs options out_root x"
  let ?s1 = "snd (handle_object options w out_root ob s)"
  have "step_ok (made_dirs options out_root ob) (obj_paths options out_root ob)
          {obj_kind options ob} s ?s1"
    using effects_handle_object[of options out_root ob w] unfolding effects_def by blast
  then have a: "step_ok ?D UNIV UNIV s ?s1"
    by (rule step_ok_mono) auto
  have "step_ok (\<Union>x \<in> set obs. made_dirs options out_root x) UNIV UNIV ?s1
          (snd (for_objects options w out_root obs ?s1))"
    by (rule Cons.IH)
  then have b: "step_ok ?D UNIV UNIV ?s1 (snd (for_objects options w out_root obs ?s1))"
    by (rule step_ok_mono) auto
  show ?case unfolding for_objects_Cons using a b by (rule step_ok_trans)
qed




lemma kind_key_inj: "kind_key k = kind_key k' \<Longrightarrow> k = k'"
  by (cases k; cases k'; simp add: ustr_def)

lemma kind_dir_in_kind_dirs:
  assumes "out_root @ [kind_key k] \<in> kind_dirs out_root k'"
  shows "k = k'"
proof -
  have "prefixes out_root \<noteq> []" by (cases out_root rule: rev_cases) simp_all
  then have "tl (prefixes out_root @ [out_root @ [kind_key k']]) =
             tl (prefixes out_root) @ [out_root @ [kind_key k']]"
    by simp
  then have "kind_dirs out_root k' = set (tl (prefixes out_root)) \<union> {out_root @ [kind_key k']}"
    by (simp add: kind_dirs_def)
  moreover have "out_root @ [kind_key k] \<notin> set (tl (prefixes out_root))"
  proof
    assume "out_root @ [kind_key k] \<in> set (tl (prefixes out_root))"
    then have "out_root @ [kind_key k] \<in> set (prefixes out_root)"
      by (meson list.set_sel(2) \<open>prefixes out_root \<noteq> []\<close>)
    then have "prefix (out_root @ [kind_key k]) out_root" by simp
    then have "length (out_root @ [kind_key k]) \<le> length out_root" by (rule prefix_length_le)
    then show False by simp
  qed
  ultimately have "kind_key k = kind_key k'" using assms by auto
  then show ?thesis by (rule kind_key_inj)
qed

lemma extract_from_file_dirs:
  "dirs (snd (extract_from_file w src out_root options_arg s)) =
     (case load w src of
        Inl e \<Rightarrow> dirs s
      | Inr en \<Rightarrow>
          (case objects en of
             Inl e \<Rightarrow> dirs s
           | Inr obs \<Rightarrow>
               dirs (snd (for_objects
                 (case options_arg of None \<Rightarrow> default_options | Some x \<Rightarrow> x) w out_root obs
                 (s\<lparr>log := log s @ [Processing src], stats := zero_stats\<rparr>)))))"
proof -
  have r: "for_objects options w out_root obs t =
        (Inr (), snd (for_objects options w out_root obs t))" for options obs t
    using for_objects_returns[of options w out_root obs t] by (simp add: prod_eq_iff)
  show ?thesis
    apply (simp add: extract_from_file_def Let_def and_then_def try_except_def call_def
        logging_def ret_def split: sum.splits)
    apply (intro allI impI conjI)
    apply (subst r, simp)+
    done
qed

text \<open>
  Claim C3, as stated, fails: a pass over one audio clip without samples makes the
  directory \<open>audio\<close> and writes no file.
\<close>

theorem audio_dir_without_item:
  "dirs (snd (extract_from_file
       (quiet_world\<lparr>load := \<lambda>p. Inr (plain_env [bare_obj ''AudioClip'' 7])\<rparr>)
       [ustr ''level0''] [ustr ''out''] None initial_state))
     = {[ustr ''out''], [ustr ''out'', ustr ''audio'']}
   \<and> writes (snd (extract_from_file
       (quiet_world\<lparr>load := \<lambda>p. Inr (plain_env [bare_obj ''AudioClip'' 7])\<rparr>)
       [ustr ''level0''] [ustr ''out''] None initial_state)) = []
   \<and> stats (snd (extract_from_file
       (quiet_world\<lparr>load := \<lambda>p. Inr (plain_env [bare_obj ''AudioClip'' 7])\<rparr>)
       [ustr ''level0''] [ustr ''out''] None initial_state)) Audio = 0"
  by (simp add: action_eval branch_eval example_eval name_eval)

text \<open>
  Claim C3, amended. The directory of a kind is made only while an object of that kind,
  with its option on, is handled: for a texture, a mesh and a material only once there
  is an item about to be written (an image, an export, a type tree that is not empty);
  for audio, text and font once the object has decoded; for a sprite and a script as
  soon as the object is reached. A pass that meets no such object of a kind, or that does
  not load, never makes the directory of that kind.
\<close>

theorem kind_dir_needs_object:
  assumes "k \<noteq> Other"
    and "out_root @ [kind_key k] \<in> dirs (snd (extract_from_file w src out_root options_arg s))"
    and "out_root @ [kind_key k] \<notin> dirs s"
  shows "\<exists>en obs ob. load w src = Inr en \<and> objects en = Inr obs \<and> ob \<in> set obs \<and>
           obj_kind (case options_arg of None \<Rightarrow> default_options | Some x \<Rightarrow> x) ob = k \<and>
           reaches_mkdir k ob"
proof -
  let ?opts = "case options_arg of None \<Rightarrow> default_options | Some x \<Rightarrow> x"
  let ?p = "out_root @ [kind_key k]"
  from assms(2,3) obtain en where en: "load w src = Inr en"
    by (cases "load w src") (auto simp: extract_from_file_dirs)
  from assms(2,3) en obtain obs where obs: "objects en = Inr obs"
    by (cases "objects en") (auto simp: extract_from_file_dirs)
  let ?s0 = "s\<lparr>log := log s @ [Processing src], stats := zero_stats\<rparr>"
  have in_after: "?p \<in> dirs (snd (for_objects ?opts w out_root obs ?s0))"
    using assms(2) en obs by (simp add: extract_from_file_dirs)
  have "step_ok (\<Union>ob \<in> set obs. made_dirs ?opts out_root ob) UNIV UNIV ?s0
          (snd (for_objects ?opts w out_root obs ?s0))"
    by (rule for_objects_step)
  then have "dirs (snd (for_objects ?opts w out_root obs ?s0))
               \<subseteq> dirs ?s0 \<union> (\<Union>ob \<in> set obs. made_dirs ?opts out_root ob)"
    by (simp add: step_ok_def)
  then obtain ob where ob: "ob \<in> set obs" "?p \<in> made_dirs ?opts out_root ob"
    using in_after assms(3) by auto
  from ob(2) have m: "obj_kind ?opts ob \<noteq> Other" "reaches_mkdir (obj_kind ?opts ob) ob"
     "?p \<in> kind_dirs out_root (obj_kind ?opts ob)"
    by (auto simp: made_dirs_def split: if_splits)
  from m(3) have "k = obj_kind ?opts ob" by (rule kind_dir_in_kind_dirs)
  then show ?thesis using en obs ob(1) m(2) by blast
qed

theorem kind_dir_needs_object_witness:
  "\<exists>en obs ob.
      load (quiet_world\<lparr>load := \<lambda>p. Inr (plain_env [texture_obj 1])\<rparr>) [ustr ''level0''] = Inr en \<and>
      objects en = Inr obs \<and> ob \<in> set obs \<and>
      obj_kind (case None of None \<Rightarrow> default_options | Some x \<Rightarrow> x) ob = Textures \<and>
      reaches_mkdir Textures ob"
proof -
  have a: "Textures \<noteq> Other" by simp
  have b: "[ustr ''out''] @ [kind_key Textures] \<in> dirs (snd (extract_from_file
       (quiet_world\<lparr>load := \<lambda>p. Inr (plain_env [texture_obj 1])\<rparr>)
       [ustr ''level0''] [ustr ''out''] None initial_state))"
    by (simp add: action_eval branch_eval example_eval name_eval)
  have c: "[ustr ''out''] @ [kind_key Textures] \<notin> dirs initial_state"
    by (simp add: initial_state_def)
  show ?thesis by (rule kind_dir_needs_object[OF a b c])
qed

section \<open>File names and ids\<close>

lemma str_nat_digits: "set (str_nat n) \<subseteq> {48..57}"
proof (induction n rule: str_nat.induct)
  case (1 n)
  show ?case
  proof (cases "n < 10")
    case True
    then show ?thesis by (subst str_nat.simps) auto
  next
    case False
    have "n mod 10 < 10" by simp
    then have "48 + n mod 10 \<in> {48..57}" by auto
    then show ?thesis using 1 False by (subst str_nat.simps) auto
  qed
qed

lemma str_nat_nonempty: "str_nat n \<noteq> []"
  by (subst str_nat.simps) simp

lemma nat_of_str_nat: "nat_of_digits (str_nat n) = n"
proof (induction n rule: str_nat.induct)
  case (1 n)
  show ?case
  proof (cases "n < 10")
    case True
    then show ?thesis by (subst str_nat.simps) simp
  next
    case False
    then have "nat_of_digits (str_nat (n div 10)) = n div 10" using 1 by simp
    then show ?thesis using False by (subst str_nat.simps) simp
  qed
qed

lemma str_nat_inj:
  assumes "str_nat a = str_nat b"
  shows "a = b"
proof -
  have "nat_of_digits (str_nat a) = nat_of_digits (str_nat b)"
    using assms by simp
  then show ?thesis by (simp only: nat_of_str_nat)
qed

lemma str_int_inj:
  assumes "str_int i = str_int j"
  shows "i = j"
proof -
  have no_minus: "45 \<notin> set (str_nat n)" for n
    using str_nat_digits[of n] by auto
  have hd_ne: "hd (str_nat n) \<noteq> 45" for n
    using no_minus[of n] str_nat_nonempty[of n] by (metis hd_in_set)
  show ?thesis
  proof (cases "i < 0")
    case True
    show ?thesis
    proof (cases "j < 0")
      case True
      with \<open>i < 0\<close> assms have "str_nat (nat (- i)) = str_nat (nat (- j))"
        by (simp add: str_int_def)
      then have "nat (- i) = nat (- j)" by (rule str_nat_inj)
      then show ?thesis using True \<open>i < 0\<close> by simp
    next
      case False
      with \<open>i < 0\<close> assms have "45 # str_nat (nat (- i)) = str_nat (nat j)"
        by (simp add: str_int_def)
      then have "hd (str_nat (nat j)) = 45" by (metis list.sel(1))
      then show ?thesis using hd_ne[of "nat j"] by simp
    qed
  next
    case False
    show ?thesis
    proof (cases "j < 0")
      case True
      with \<open>\<not> i < 0\<close> assms have "str_nat (nat i) = 45 # str_nat (nat (- j))"
        by (simp add: str_int_def)
      then have "hd (str_nat (nat i)) = 45" by simp
      then show ?thesis using hd_ne[of "nat i"] by simp
    next
      case False
      with \<open>\<not> i < 0\<close> assms have "str_nat (nat i) = str_nat (nat j)"
        by (simp add: str_int_def)
      then have "nat i = nat j" by (rule str_nat_inj)
      then show ?thesis using False \<open>\<not> i < 0\<close> by simp
    qed
  qed
qed

lemma str_int_chars: "set (str_int i) \<subseteq> insert 45 {48..57}"
proof (cases "i < 0")
  case True
  then show ?thesis using str_nat_digits[of "nat (- i)"] by (simp add: str_int_def subset_insertI2)
next
  case False
  then show ?thesis using str_nat_digits[of "nat i"] by (simp add: str_int_def subset_insertI2)
qed

lemma split_at_first:
  assumes "x @ u # a = y @ u # b" and "u \<notin> set x" and "u \<notin> set y"
  shows "x = y"
proof -
  have "takeWhile (\<lambda>c. c \<noteq> u) (x @ u # a) = x"
    using assms(2) by (induction x) auto
  moreover have "takeWhile (\<lambda>c. c \<noteq> u) (y @ u # b) = y"
    using assms(3) by (induction y) auto
  ultimately show ?thesis using assms(1) by simp
qed

lemma split_at_last:
  assumes "a @ u # x = b @ u # y" and "u \<notin> set x" and "u \<notin> set y"
  shows "x = y"
proof -
  have "rev (a @ u # x) = rev (b @ u # y)"
    using assms(1) by simp
  then have "rev x @ u # rev a = rev y @ u # rev b"
    by simp
  moreover have "u \<notin> set (rev x)" "u \<notin> set (rev y)"
    using assms(2,3) by simp_all
  ultimately have "rev x = rev y"
    by (rule split_at_first)
  then show ?thesis by simp
qed

lemma id_ext_shape: "e \<in> id_exts \<Longrightarrow> \<exists>t. e = 46 # t \<and> 95 \<notin> set t"
  by (auto simp: id_exts_def ustr_def)

lemma id_name_inj:
  assumes "n1 @ ustr ''_'' @ str_int i @ e1 = n2 @ ustr ''_'' @ str_int j @ e2"
    and "e1 \<in> id_exts" and "e2 \<in> id_exts"
  shows "i = j"
proof -
  obtain t1 where t1: "e1 = 46 # t1" "95 \<notin> set t1" using id_ext_shape[OF assms(2)] by blast
  obtain t2 where t2: "e2 = 46 # t2" "95 \<notin> set t2" using id_ext_shape[OF assms(3)] by blast
  have c1: "95 \<notin> set (str_int i @ e1)" using str_int_chars[of i] t1 by auto
  have c2: "95 \<notin> set (str_int j @ e2)" using str_int_chars[of j] t2 by auto
  have "n1 @ 95 # (str_int i @ e1) = n2 @ 95 # (str_int j @ e2)"
    using assms(1) by (simp add: ustr_def)
  then have "str_int i @ e1 = str_int j @ e2"
    using c1 c2 by (rule split_at_last)
  then have eq: "str_int i @ 46 # t1 = str_int j @ 46 # t2" using t1 t2 by simp
  have d1: "46 \<notin> set (str_int i)" using str_int_chars[of i] by auto
  have d2: "46 \<notin> set (str_int j)" using str_int_chars[of j] by auto
  have "str_int i = str_int j" using eq d1 d2 by (rule split_at_first)
  then show ?thesis by (rule str_int_inj)
qed

lemma id_paths_disjoint:
  assumes "p \<in> id_paths out_root k i" and "p \<in> id_paths out_root k j"
  shows "i = j"
proof -
  obtain n1 e1 where a: "p = out_root @ [kind_key k, n1 @ ustr ''_'' @ str_int i @ e1]" "e1 \<in> id_exts"
    using assms(1) unfolding id_paths_def by blast
  obtain n2 e2 where b: "p = out_root @ [kind_key k, n2 @ ustr ''_'' @ str_int j @ e2]" "e2 \<in> id_exts"
    using assms(2) unfolding id_paths_def by blast
  have "n1 @ ustr ''_'' @ str_int i @ e1 = n2 @ ustr ''_'' @ str_int j @ e2"
    using a(1) b(1) by simp
  then show ?thesis using a(2) b(2) by (rule id_name_inj)
qed

lemma written_handle_object:
  "written (handle_object options w out_root ob) s \<subseteq> obj_paths options out_root ob"
proof -
  have "step_ok (made_dirs options out_root ob) (obj_paths options out_root ob)
          {obj_kind options ob} s (snd (handle_object options w out_root ob s))"
    using effects_handle_object[of options out_root ob w] unfolding effects_def by blast
  then obtain ws where ws: "writes (snd (handle_object options w out_root ob s)) = writes s @ ws"
      "fst ` set ws \<subseteq> obj_paths options out_root ob"
    unfolding step_ok_def by blast
  then show ?thesis by (simp add: written_def)
qed

text \<open>
  Claim C2, as stated, fails for meshes: two meshes named \<open>rock\<close> with ids 1 and 2 are
  both written to \<open>meshes/rock.obj\<close>. The names of mesh, text, font and audio files
  carry no id.
\<close>

theorem mesh_names_collide:
  "map fst (writes (snd (extract_from_file
       (quiet_world\<lparr>load := \<lambda>p. Inr (plain_env [mesh_obj 1, mesh_obj 2])\<rparr>)
       [ustr ''level0''] [ustr ''out''] None initial_state)))
     = [[ustr ''out'', ustr ''meshes'', ustr ''rock.obj''],
        [ustr ''out'', ustr ''meshes'', ustr ''rock.obj'']]
   \<and> path_id (mesh_obj 1) \<noteq> path_id (mesh_obj 2)"
  by (simp add: action_eval branch_eval example_eval name_eval)

text \<open>
  Claim C2, amended. For two objects of the same kind among textures, sprites, scripts
  and materials whose ids differ, every file written for the one has a name of the form
  \<open><name>_<id><ext>\<close> with its own id and differs from every file written for the other,
  whatever their display names are, the same sanitized name included; in particular for
  two textures.
\<close>

theorem id_disambiguates:
  assumes "obj_kind options ob1 = k" and "obj_kind options ob2 = k" and "k \<in> id_kinds"
    and "path_id ob1 \<noteq> path_id ob2"
    and "p1 \<in> written (handle_object options w out_root ob1) s1"
    and "p2 \<in> written (handle_object options w out_root ob2) s2"
  shows "p1 \<in> id_paths out_root k (path_id ob1) \<and> p2 \<in> id_paths out_root k (path_id ob2) \<and>
         p1 \<noteq> p2"
proof -
  have a: "p1 \<in> id_paths out_root k (path_id ob1)"
    using written_handle_object[of options w out_root ob1 s1] assms(1,3,5)
    by (auto simp: obj_paths_def)
  have b: "p2 \<in> id_paths out_root k (path_id ob2)"
    using written_handle_object[of options w out_root ob2 s2] assms(2,3,6)
    by (auto simp: obj_paths_def)
  have "p1 \<noteq> p2"
  proof
    assume "p1 = p2"
    then have "path_id ob1 = path_id ob2" using a b id_paths_disjoint by blast
    then show False using assms(4) by simp
  qed
  then show ?thesis using a b by simp
qed

theorem id_disambiguates_witness:
  "[ustr ''out'', ustr ''textures'', ustr ''rock_1.png'']
     \<in> id_paths [ustr ''out''] Textures 1
   \<and> [ustr ''out'', ustr ''textures'', ustr ''rock_2.png'']
     \<in> id_paths [ustr ''out''] Textures 2
   \<and> [ustr ''out'', ustr ''textures'', ustr ''rock_1.png'']
     \<noteq> [ustr ''out'', ustr ''textures'', ustr ''rock_2.png'']"
proof -
  have k1: "obj_kind default_options (texture_obj 1) = Textures"
    by (simp add: obj_kind_def texture_obj_def default_options_def)
  have k2: "obj_kind default_options (texture_obj 2) = Textures"
    by (simp add: obj_kind_def texture_obj_def default_options_def)
  have k: "Textures \<in> id_kinds" by (simp add: id_kinds_def)
  have d: "path_id (texture_obj 1) \<noteq> path_id (texture_obj 2)"
    by (simp add: texture_obj_def)
  have w1: "[ustr ''out'', ustr ''textures'', ustr ''rock_1.png'']
      \<in> written (handle_object default_options quiet_world [ustr ''out''] (texture_obj 1))
          initial_state"
    by (simp add: written_def action_eval branch_eval example_eval name_eval)
  have w2: "[ustr ''out'', ustr ''textures'', ustr ''rock_2.png'']
      \<in> written (handle_object default_options quiet_world [ustr ''out''] (texture_obj 2))
          initial_state"
    by (simp add: written_def action_eval branch_eval example_eval name_eval)
  show ?thesis
    using id_disambiguates[OF k1 k2 k d w1 w2] by (simp add: texture_obj_def)
qed

section \<open>Failures during a pass\<close>






text \<open>
  Claim C10. For a text asset that is handled (texts enabled, the object decodes, the
  directory can be made) and whose data is neither a string nor bytes, no file is written
  and the count of texts grows by one, with the line that reports the file as saved in
  the log. So the count of texts can exceed the number of text files written, as in the
  example after the theorem.
\<close>

theorem text_asset_counted_without_file:
  assumes "tname ob = ''TextAsset''" and "options Texts" and "read ob = Inr ta"
    and "mkdir_error w (out_root @ [ustr ''texts'']) = None"
    and "\<not> is_str_or_bytes (text_data ta)"
  shows "fst (handle_object options w out_root ob s) = Inr ()
     \<and> writes (snd (handle_object options w out_root ob s)) = writes s
     \<and> stats (snd (handle_object options w out_root ob s)) =
         (stats s)(Texts := stats s Texts + 1)
     \<and> log (snd (handle_object options w out_root ob s)) =
         log s @ [TextAssetSaved (out_root @ [ustr ''texts'',
           sanitize_name (getattr (m_Name ta) (Some (ustr ''text_'' @ str_int (path_id ob))))
             @ ustr ''.txt''])]"
proof -
  have d: "dispatch options w out_root ob = text_branch w out_root ob"
    using assms(1,2) by (simp add: dispatch_def)
  have n: "write_str_or_bytes w p (text_data ta) = ret ()" for p
    using assms(5) by (cases "text_data ta") (simp_all add: is_str_or_bytes_def)
  show ?thesis
    using assms(3,4)
    by (simp add: handle_object_def d text_branch_def Let_def n call_def
          and_then_def try_except_def ensure_dir_def logging_def incr_def ret_def)
qed

theorem text_asset_counted_without_file_witness:
  "writes (snd (handle_object default_options quiet_world [ustr ''out'']
       (bare_obj ''TextAsset'' 3) initial_state)) = []
   \<and> stats (snd (handle_object default_options quiet_world [ustr ''out'']
       (bare_obj ''TextAsset'' 3) initial_state)) Texts = 1"
proof -
  have a: "tname (bare_obj ''TextAsset'' 3) = ''TextAsset''" by (simp add: bare_obj_def)
  have b: "default_options Texts" by (simp add: default_options_def)
  have c: "read (bare_obj ''TextAsset'' 3) = Inr no_data" by (simp add: bare_obj_def)
  have d: "mkdir_error quiet_world ([ustr ''out''] @ [ustr ''texts'']) = None"
    by (simp add: quiet_world_def)
  have e: "\<not> is_str_or_bytes (text_data no_data)"
    by (simp add: is_str_or_bytes_def text_data_def no_data_def py_or_def getattr_def)
  show ?thesis
    using text_asset_counted_without_file[of "bare_obj ''TextAsset'' 3" default_options no_data
        quiet_world "[ustr ''out'']" initial_state, OF a b c d e]
    by (simp add: initial_state_def zero_stats_def)
qed

section \<open>The totals of a batch\<close>

lemma det_ret: "stats_det (ret x)"
  by (simp add: stats_det_def ret_def)
lemma det_raise: "stats_det (raise e)"
  by (simp add: stats_det_def raise_def)
lemma det_logging: "stats_det (logging l)"
  by (simp add: stats_det_def logging_def)
lemma det_incr: "stats_det (incr k)"
  by (simp add: stats_det_def incr_def)
lemma det_ensure_dir: "stats_det (ensure_dir w p)"
  by (simp add: stats_det_def ensure_dir_def split: option.splits)
lemma det_write_file: "stats_det (write_file w p c)"
  by (simp add: stats_det_def write_file_def split: option.splits)

lemma det_and_then:
  assumes "stats_det m" and "\<And>x. stats_det (f x)"
  shows "stats_det (and_then m f)"
  unfolding stats_det_def
proof (intro allI impI)
  fix s t :: state
  assume eq: "stats s = stats t"
  obtain r s1 where ms: "m s = (r, s1)" by (cases "m s")
  obtain r' t1 where mt: "m t = (r', t1)" by (cases "m t")
  have "fst (m s) = fst (m t) \<and> stats (snd (m s)) = stats (snd (m t))"
    using assms(1) eq unfolding stats_det_def by blast
  then have r: "r' = r" and e1: "stats s1 = stats t1" using ms mt by simp_all
  show "fst (and_then m f s) = fst (and_then m f t) \<and>
        stats (snd (and_then m f s)) = stats (snd (and_then m f t))"
  proof (cases r)
    case (Inl e)
    then show ?thesis using ms mt r e1 by (simp add: and_then_def)
  next
    case (Inr x)
    have "fst (f x s1) = fst (f x t1) \<and> stats (snd (f x s1)) = stats (snd (f x t1))"
      using assms(2)[of x] e1 unfolding stats_det_def by blast
    then show ?thesis using ms mt r Inr by (simp add: and_then_def)
  qed
qed

lemma det_try_except:
  assumes "stats_det m" and "\<And>e. stats_det (h e)"
  shows "stats_det (try_except m h)"
  unfolding stats_det_def
proof (intro allI impI)
  fix s t :: state
  assume eq: "stats s = stats t"
  obtain r s1 where ms: "m s = (r, s1)" by (cases "m s")
  obtain r' t1 where mt: "m t = (r', t1)" by (cases "m t")
  have "fst (m s) = fst (m t) \<and> stats (snd (m s)) = stats (snd (m t))"
    using assms(1) eq unfolding stats_det_def by blast
  then have r: "r' = r" and e1: "stats s1 = stats t1" using ms mt by simp_all
  show "fst (try_except m h s) = fst (try_except m h t) \<and>
        stats (snd (try_except m h s)) = stats (snd (try_except m h t))"
  proof (cases r)
    case (Inr x)
    then show ?thesis using ms mt r e1 by (simp add: try_except_def)
  next
    case (Inl e)
    have "fst (h e s1) = fst (h e t1) \<and> stats (snd (h e s1)) = stats (snd (h e t1))"
      using assms(2)[of e] e1 unfolding stats_det_def by blast
    then show ?thesis using ms mt r Inl by (simp add: try_except_def)
  qed
qed

lemma det_save_image: "stats_det (save_image w im p)"
  by (cases "(w, im, p)" rule: save_image.cases) (auto intro!: det_raise det_write_file)

lemma det_dump_json: "stats_det (dump_json w t p)"
  by (cases "(w, t, p)" rule: dump_json.cases)
     (auto intro!: det_raise det_write_file det_and_then)

lemma det_write_binary: "stats_det (write_binary w p v)"
  by (cases v) (auto intro!: det_raise det_write_file det_and_then)

lemma det_write_str_or_bytes: "stats_det (write_str_or_bytes w p v)"
  by (cases v)
     (auto intro!: det_ret det_raise det_write_file det_and_then simp: write_text_escaped_def)

lemmas det_intros =
  det_ret det_raise det_logging det_incr det_ensure_dir det_write_file det_and_then
  det_try_except det_save_image det_dump_json det_write_binary det_write_str_or_bytes

lemma det_write_samples: "stats_det (write_samples w out_dir pid smp)"
  by (induction smp) (auto intro!: det_intros simp: Let_def)

lemma det_extract_sprite: "stats_det (extract_sprite w ob out_dir pid)"
  unfolding extract_sprite_def Let_def and_then_call
  by (auto intro!: det_intros split: option.splits sum.splits)

lemma det_script_typetree: "stats_det (script_typetree w scr p)"
  unfolding script_typetree_def and_then_call
  by (auto intro!: det_intros split: option.splits sum.splits)

lemma det_extract_mono_script: "stats_det (extract_mono_script w ob out_dir pid)"
  unfolding extract_mono_script_def Let_def and_then_call
  by (auto intro!: det_intros det_script_typetree split: option.splits sum.splits)

lemma det_texture: "stats_det (texture_branch w out_root ob)"
  unfolding texture_branch_def Let_def and_then_call
  by (auto intro!: det_intros split: option.splits sum.splits)

lemma det_sprite: "stats_det (sprite_branch w out_root ob)"
  unfolding sprite_branch_def
  by (auto intro!: det_intros det_extract_sprite)

lemma det_audio: "stats_det (audio_branch w out_root ob)"
  unfolding audio_branch_def and_then_call
  by (auto intro!: det_intros det_write_samples split: sum.splits)

lemma det_mesh: "stats_det (mesh_branch w out_root ob)"
  unfolding mesh_branch_def Let_def and_then_call
  by (auto intro!: det_intros split: sum.splits)

lemma det_text: "stats_det (text_branch w out_root ob)"
  unfolding text_branch_def Let_def and_then_call
  by (auto intro!: det_intros split: sum.splits)

lemma det_font: "stats_det (font_branch w out_root ob)"
  unfolding font_branch_def Let_def and_then_call
  by (auto intro!: det_intros split: sum.splits)

lemma det_script: "stats_det (script_branch w out_root ob)"
  unfolding script_branch_def
  by (auto intro!: det_intros det_extract_mono_script)

lemma det_material: "stats_det (material_branch w out_root ob)"
  unfolding material_branch_def Let_def and_then_call
  by (auto intro!: det_intros split: option.splits sum.splits)

lemma det_dispatch: "stats_det (dispatch options w out_root ob)"
  unfolding dispatch_kind
  by (cases "obj_kind options ob")
     (simp_all add: det_texture det_sprite det_audio det_mesh det_text det_font det_script
        det_material det_incr)

lemma det_handle_object: "stats_det (handle_object options w out_root ob)"
  unfolding handle_object_def by (intro det_try_except det_dispatch det_logging)

lemma det_for_objects: "stats_det (for_objects options w out_root obs)"
  by (induction obs) (auto intro!: det_intros det_handle_object)

lemma for_objects_stats_indep:
  "stats s = stats t \<Longrightarrow>
   stats (snd (for_objects options w out_root obs s)) =
     stats (snd (for_objects options w out_root obs t))"
  using det_for_objects[of options w out_root obs] unfolding stats_det_def by blast

lemma for_objects_pair:
  "for_objects options w out_root obs t = (Inr (), snd (for_objects options w out_root obs t))"
  using for_objects_returns[of options w out_root obs t] by (simp add: prod_eq_iff)

lemma extract_from_file_result:
  "fst (extract_from_file w src out_root options_arg s) =
     (case load w src of
        Inl e \<Rightarrow> Inr None
      | Inr en \<Rightarrow>
          (case objects en of
             Inl e \<Rightarrow> Inl e
           | Inr obs \<Rightarrow>
               Inr (Some (stats (snd (for_objects
                 (case options_arg of None \<Rightarrow> default_options | Some x \<Rightarrow> x) w out_root obs
                 (s\<lparr>log := log s @ [Processing src], stats := zero_stats\<rparr>)))))))"
  apply (simp add: extract_from_file_def Let_def and_then_def try_except_def call_def
      logging_def ret_def split: sum.splits)
  apply (intro allI impI conjI)
  apply (subst for_objects_pair, simp)+
  done

lemma extract_from_file_total:
  "total_stats (snd (extract_from_file w src out_root options_arg s)) = total_stats s"
proof -
  have t: "total_stats (snd (for_objects options w out_root obs t)) = total_stats t"
    for options obs t
  proof -
    have "step_ok (\<Union>ob \<in> set obs. made_dirs options out_root ob) UNIV UNIV t
            (snd (for_objects options w out_root obs t))"
      by (rule for_objects_step)
    then show ?thesis by (simp add: step_ok_def)
  qed
  show ?thesis
    apply (simp add: extract_from_file_def Let_def and_then_def try_except_def call_def
        logging_def ret_def split: sum.splits)
    apply (intro allI impI conjI)
    apply (subst for_objects_pair, simp add: t)+
    done
qed

lemma extract_result_indep:
  "fst (extract_from_file w src out_root options_arg s) =
     fst (extract_from_file w src out_root options_arg t)"
proof -
  have "stats (snd (for_objects options w out_root obs
            (s\<lparr>log := log s @ [Processing src], stats := zero_stats\<rparr>))) =
        stats (snd (for_objects options w out_root obs
            (t\<lparr>log := log t @ [Processing src], stats := zero_stats\<rparr>)))" for options obs
    by (rule for_objects_stats_indep) simp
  then show ?thesis
    by (simp add: extract_from_file_result split: sum.splits)
qed

lemma add_zero_stats: "add_stats a zero_stats = a"
  by (simp add: add_stats_def zero_stats_def)

lemma process_file_total:
  "fst (process_file w out_root options idx n f s) = Inr () \<and>
   total_stats (snd (process_file w out_root options idx n f s)) =
     add_stats (total_stats s) (file_stats w out_root options f)"
proof (cases "mkdir_error w (out_root @ [stem_of (path_name f)])")
  case (Some e)
  then show ?thesis
    by (simp add: process_file_def file_stats_def add_zero_stats and_then_def try_except_def
          ensure_dir_def gui_def logging_def)
next
  case None
  let ?sub = "out_root @ [stem_of (path_name f)]"
  let ?s1 = "s\<lparr>dirs := dirs s \<union> set (tl (prefixes ?sub)),
               gui_log := gui_log s @ [GuiProcessing idx n (path_name f)]\<rparr>"
  obtain r s2 where ex: "extract_from_file w f ?sub (Some options) ?s1 = (r, s2)"
    by (cases "extract_from_file w f ?sub (Some options) ?s1")
  have r: "r = file_result w out_root options f"
    using extract_result_indep[of w f ?sub "Some options" ?s1 initial_state] ex
    by (simp add: file_result_def)
  have t: "total_stats s2 = total_stats s"
    using extract_from_file_total[of w f ?sub "Some options" ?s1] ex by simp
  have p: "process_file w out_root options idx n f s =
      (case r of
         Inl e \<Rightarrow> (Inr (), s2\<lparr>gui_log := gui_log s2 @ [GuiError (path_name f) e],
                              log := log s2 @ [Traceback e]\<rparr>)
       | Inr None \<Rightarrow> (Inr (), s2)
       | Inr (Some st) \<Rightarrow>
           (Inr (), s2\<lparr>total_stats := add_stats (total_stats s2) st,
                       gui_log := gui_log s2 @ [GuiExtracted (total_extracted st)]\<rparr>))"
    using None ex
    by (simp add: process_file_def and_then_def try_except_def ensure_dir_def gui_def
          logging_def ret_def split: sum.splits option.splits)
  show ?thesis
    unfolding p using None r t
    by (simp add: file_stats_def add_zero_stats split: sum.splits option.splits)
qed

lemma for_files_total:
  "fst (for_files w out_root options idx n files s) = Inr () \<and>
   total_stats (snd (for_files w out_root options idx n files s)) k =
     total_stats s k + sum_list (map (\<lambda>f. file_stats w out_root options f k) files)"
proof (induction files arbitrary: s idx)
  case Nil
  then show ?case by (simp add: ret_def)
next
  case (Cons f files)
  obtain s1 where p: "process_file w out_root options idx n f s = (Inr (), s1)"
    using process_file_total[of w out_root options idx n f s]
    by (cases "process_file w out_root options idx n f s") simp
  have t: "total_stats s1 = add_stats (total_stats s) (file_stats w out_root options f)"
    using process_file_total[of w out_root options idx n f s] p by simp
  have "for_files w out_root options idx n (f # files) s =
        for_files w out_root options (Suc idx) n files s1"
    using p by (simp add: and_then_def)
  then show ?case
    using Cons.IH[of "Suc idx" s1] t by (simp add: add_stats_def)
qed

text \<open>
  Claim C9. The batch loop never raises and handles every file of the list: at its
  end, each total is the sum over all files of what the file contributes, which is the
  counts \<open>extract_from_file\<close> returns for it (the same from whatever state it is called)
  and zero for a file that does not load (the result is \<open>None\<close>), whose extraction
  raises or whose output directory cannot be made.
\<close>

theorem batch_totals:
  "fst (run_batch w out_root options files s) = Inr ()
   \<and> total_stats (snd (run_batch w out_root options files s)) k =
       sum_list (map (\<lambda>f. file_stats w out_root options f k) files)
   \<and> fst (extract_from_file w f (out_root @ [stem_of (path_name f)]) (Some options) s') =
       file_result w out_root options f
   \<and> (load w f = Inl e \<longrightarrow>
        file_result w out_root options f = Inr None \<and>
        file_stats w out_root options f = zero_stats)"
proof -
  let ?s0 = "s\<lparr>total_stats := zero_stats\<rparr>"
  have r: "run_batch w out_root options files s =
           for_files w out_root options 1 (length files) files ?s0"
    by (simp add: run_batch_def and_then_def)
  have a: "fst (run_batch w out_root options files s) = Inr ()"
    unfolding r using for_files_total[of w out_root options 1 "length files" files ?s0] by simp
  have b: "total_stats (snd (run_batch w out_root options files s)) k =
       sum_list (map (\<lambda>f. file_stats w out_root options f k) files)"
    unfolding r using for_files_total[of w out_root options 1 "length files" files ?s0 k]
    by (simp add: zero_stats_def)
  have c: "fst (extract_from_file w f (out_root @ [stem_of (path_name f)]) (Some options) s') =
       file_result w out_root options f"
    unfolding file_result_def by (rule extract_result_indep)
  have d: "load w f = Inl e \<longrightarrow>
        file_result w out_root options f = Inr None \<and>
        file_stats w out_root options f = zero_stats"
    by (simp add: file_result_def file_stats_def extract_from_file_result split: option.splits)
  show ?thesis using a b c d by blast
qed

theorem batch_totals_witness:
  "fst (run_batch second_fails [ustr ''out''] default_options
          [[ustr ''a.assets''], [ustr ''b.assets''], [ustr ''c.assets'']] initial_state) = Inr ()
   \<and> total_stats (snd (run_batch second_fails [ustr ''out''] default_options
          [[ustr ''a.assets''], [ustr ''b.assets''], [ustr ''c.assets'']] initial_state)) Texts = 2
   \<and> file_stats second_fails [ustr ''out''] default_options [ustr ''b.assets''] = zero_stats"
proof -
  have l: "load second_fails [ustr ''b.assets''] = Inl (Exception (ustr ''cannot load''))"
    by (simp add: second_fails_def)
  have a: "file_stats second_fails [ustr ''out''] default_options [ustr ''a.assets''] Texts = 1"
    by (simp add: file_stats_def file_result_def second_fails_def action_eval branch_eval
          example_eval name_eval path_name_def stem_of_def)
  have c: "file_stats second_fails [ustr ''out''] default_options [ustr ''c.assets''] Texts = 1"
    by (simp add: file_stats_def file_result_def second_fails_def action_eval branch_eval
          example_eval name_eval path_name_def stem_of_def)
  note t = batch_totals[of second_fails "[ustr ''out'']" default_options
      "[[ustr ''a.assets''], [ustr ''b.assets''], [ustr ''c.assets'']]" initial_state Texts
      "[ustr ''b.assets'']" initial_state "Exception (ustr ''cannot load'')"]
  have z: "file_stats second_fails [ustr ''out''] default_options [ustr ''b.assets''] = zero_stats"
    using t l by blast
  have "total_stats (snd (run_batch second_fails [ustr ''out''] default_options
          [[ustr ''a.assets''], [ustr ''b.assets''], [ustr ''c.assets'']] initial_state)) Texts
        = 1 + zero_stats Texts + 1"
    using t a c z by simp
  then show ?thesis using t z by (simp add: zero_stats_def)
qed

end
